theory Spec2Isabelle
  imports Main
begin

section \<open>JavaScript values and strings\<close>

text \<open>
  A JavaScript string is modelled as a \<open>string\<close>, one \<open>char\<close> per UTF-16 code unit, for
  strings whose code units are below 256. A field that may be missing is a
  \<open>string option\<close>, \<open>None\<close> for a field that is absent (\<open>undefined\<close>); the fields of the
  call, activity and dispatch objects that the code treats with string methods are taken
  to be strings when present.
\<close>

definition truthy :: "string option \<Rightarrow> bool" where
  "truthy v = (case v of None \<Rightarrow> False | Some s \<Rightarrow> s \<noteq> [])"

text \<open>\<open>a || b\<close> between possibly missing strings, and \<open>a || ''\<close> (or another literal).\<close>

definition js_or :: "string option \<Rightarrow> string option \<Rightarrow> string option" where
  "js_or a b = (if truthy a then a else b)"

definition or_lit :: "string option \<Rightarrow> string \<Rightarrow> string" where
  "or_lit a d = (case a of None \<Rightarrow> d | Some s \<Rightarrow> if s = [] then d else s)"

text \<open>
  A primitive that may be a number, for the priority reference: the \<open>Priority\<close> of a call
  is a primitive or an object, of which the code reads the \<open>Id\<close> and the \<open>Name\<close> (the
  arguments of \<open>Obj\<close>, in this order).
\<close>

datatype jsval = JUndefined | JStr string | JNum int

datatype priority = Prim jsval | Obj jsval jsval

fun js_truthy :: "jsval \<Rightarrow> bool" where
  "js_truthy JUndefined = False"
| "js_truthy (JStr s) = (s \<noteq> [])"
| "js_truthy (JNum n) = (n \<noteq> 0)"

fun priority_truthy :: "priority \<Rightarrow> bool" where
  "priority_truthy (Prim v) = js_truthy v"
| "priority_truthy (Obj i n) = True"

definition digit_char :: "nat \<Rightarrow> char" where
  "digit_char d = ''0123456789'' ! d"

function dec_nat :: "nat \<Rightarrow> string" where
  "dec_nat n = (if n < 10 then [digit_char n] else dec_nat (n div 10) @ [digit_char (n mod 10)])"
  by pat_completeness auto
termination
  by (relation "measure id") auto

declare dec_nat.simps [simp del]

definition dec_int :: "int \<Rightarrow> string" where
  "dec_int i = (if i < 0 then CHR ''-'' # dec_nat (nat (- i)) else dec_nat (nat i))"

text \<open>
  \<open>String(v)\<close>; \<open>v.toString()\<close> gives the same text and is only reached on truthy values.
\<close>

fun String_js :: "jsval \<Rightarrow> string" where
  "String_js JUndefined = ''undefined''"
| "String_js (JStr s) = s"
| "String_js (JNum n) = dec_int n"

text \<open>The property key that \<open>obj[p]\<close> uses for a priority reference \<open>p\<close>.\<close>

fun property_key :: "priority \<Rightarrow> string" where
  "property_key (Prim v) = String_js v"
| "property_key (Obj i n) = ''[object Object]''"

text \<open>
  Reading \<open>obj[key]\<close> from an object literal: an own property, or a member inherited from
  \<open>Object.prototype\<close> (a function or object, hence truthy and not a string), or nothing.
\<close>

datatype jsprop = Own string | Inherited string | Missing

definition object_prototype_keys :: "string list" where
  "object_prototype_keys =
     [''constructor'', ''__proto__'', ''hasOwnProperty'', ''isPrototypeOf'',
      ''propertyIsEnumerable'', ''toLocaleString'', ''toString'', ''valueOf'',
      ''__defineGetter__'', ''__defineSetter__'', ''__lookupGetter__'', ''__lookupSetter__'']"

definition obj_get :: "(string \<times> string) list \<Rightarrow> string \<Rightarrow> jsprop" where
  "obj_get obj key =
     (case map_of obj key of
        Some v \<Rightarrow> Own v
      | None \<Rightarrow> if key \<in> set object_prototype_keys then Inherited key else Missing)"

text \<open>A value that is a string unless it was read from the prototype.\<close>

datatype text_or_member = Text string | Member string

definition prop_or :: "jsprop \<Rightarrow> string \<Rightarrow> text_or_member" where
  "prop_or p d =
     (case p of
        Own v \<Rightarrow> if v = [] then Text d else Text v
      | Inherited k \<Rightarrow> Member k
      | Missing \<Rightarrow> Text d)"

subsection \<open>String methods\<close>

text \<open>White space and line terminators, as \<open>trim\<close> and the regular expression \<open>\s\<close> see them.\<close>

definition isWhiteSpace :: "char \<Rightarrow> bool" where
  "isWhiteSpace c =
     (c \<in> set [CHR 0x09, CHR 0x0A, CHR 0x0B, CHR 0x0C, CHR 0x0D, CHR 0x20, CHR 0xA0])"

definition js_trim :: "string \<Rightarrow> string" where
  "js_trim s = rev (dropWhile isWhiteSpace (rev (dropWhile isWhiteSpace s)))"

text \<open>\<open>s.split(sep)\<close> with a one-character separator: the empty string gives one empty part.\<close>

fun js_split :: "char \<Rightarrow> string \<Rightarrow> string list" where
  "js_split sep [] = [[]]"
| "js_split sep (c # cs) =
     (if c = sep then [] # js_split sep cs
      else (case js_split sep cs of [] \<Rightarrow> [[c]] | p # ps \<Rightarrow> (c # p) # ps))"

fun js_join :: "string \<Rightarrow> string list \<Rightarrow> string" where
  "js_join sep [] = []"
| "js_join sep [p] = p"
| "js_join sep (p # q # ps) = p @ sep @ js_join sep (q # ps)"

definition startsWith :: "string \<Rightarrow> string \<Rightarrow> bool" where
  "startsWith s p = (take (length p) s = p)"

fun js_includes :: "string \<Rightarrow> string \<Rightarrow> bool" where
  "js_includes [] sub = (sub = [])"
| "js_includes (c # cs) sub = (startsWith (c # cs) sub \<or> js_includes cs sub)"

text \<open>
  The code unit 32 above a code unit whose bit of weight 32 is clear: a letter and its
  lower-case letter differ by exactly that bit.
\<close>

definition add32 :: "char \<Rightarrow> char" where
  "add32 c = (case c of Char b0 b1 b2 b3 b4 b5 b6 b7 \<Rightarrow> Char b0 b1 b2 b3 b4 True b6 b7)"

text \<open>
  The letters with a lower case among the code units below 256 are the ASCII capitals (65
  to 90) and the Latin-1 capitals (192 to 222 without 215).
\<close>

definition toLowerCase_char :: "char \<Rightarrow> char" where
  "toLowerCase_char c =
     (let n = (of_char c :: nat)
      in if (65 \<le> n \<and> n \<le> 90) \<or> (192 \<le> n \<and> n \<le> 222 \<and> n \<noteq> 215) then add32 c else c)"

definition toLowerCase :: "string \<Rightarrow> string" where
  "toLowerCase s = map toLowerCase_char s"

text \<open>\<open>s.replace(/[\r\n]/g, '')\<close>\<close>

definition remove_newlines :: "string \<Rightarrow> string" where
  "remove_newlines s = filter (\<lambda>c. c \<noteq> CHR 0x0D \<and> c \<noteq> CHR 0x0A) s"

text \<open>\<open>/^[a-zA-Z0-9]+$/.test(s)\<close>\<close>

definition isAlnum :: "char \<Rightarrow> bool" where
  "isAlnum c =
     (let n = (of_char c :: nat)
      in (97 \<le> n \<and> n \<le> 122) \<or> (65 \<le> n \<and> n \<le> 90) \<or> (48 \<le> n \<and> n \<le> 57))"

definition alphanumeric :: "string \<Rightarrow> bool" where
  "alphanumeric s = (s \<noteq> [] \<and> list_all isAlnum s)"

subsection \<open>The keyword pattern\<close>

text \<open>
  \<open>/non.?emergency|non.?urgent|routine|scheduled/i.test(s)\<close>. Under the \<open>i\<close> flag (without
  \<open>u\<close>) a code unit matches an ASCII letter of the pattern exactly when it is that letter
  in either case; \<open>.\<close> matches any code unit except a line terminator.
\<close>

definition ascii_lower :: "char \<Rightarrow> char" where
  "ascii_lower c = (let n = (of_char c :: nat) in if 65 \<le> n \<and> n \<le> 90 then add32 c else c)"

definition ci_prefix :: "string \<Rightarrow> string \<Rightarrow> bool" where
  "ci_prefix w s = (map ascii_lower (take (length w) s) = w)"

definition line_terminator :: "char \<Rightarrow> bool" where
  "line_terminator c = (c = CHR 0x0A \<or> c = CHR 0x0D)"

text \<open>\<open>non.?w\<close> matched at the start of \<open>s\<close>.\<close>

definition non_opt :: "string \<Rightarrow> string \<Rightarrow> bool" where
  "non_opt w s =
     (ci_prefix ''non'' s \<and>
      (case drop 3 s of
         [] \<Rightarrow> ci_prefix w []
       | c # r \<Rightarrow> (\<not> line_terminator c \<and> ci_prefix w r) \<or> ci_prefix w (c # r)))"

definition keyword_at :: "string \<Rightarrow> bool" where
  "keyword_at s =
     (non_opt ''emergency'' s \<or> non_opt ''urgent'' s \<or> ci_prefix ''routine'' s \<or>
      ci_prefix ''scheduled'' s)"

fun keyword_test :: "string \<Rightarrow> bool" where
  "keyword_test [] = False"
| "keyword_test (c # cs) = (keyword_at (c # cs) \<or> keyword_test cs)"

declare keyword_test.simps [simp del]

subsection \<open>stripTags\<close>

text \<open>
  \<open>.replace(/<[^>]*>/g, ' ')\<close>: a \<open><\<close> with a \<open>>\<close> somewhere after it is replaced, up to the
  first such \<open>>\<close>, by one space; a \<open><\<close> with no \<open>>\<close> after it stays.
\<close>

function replace_tags :: "string \<Rightarrow> string" where
  "replace_tags [] = []"
| "replace_tags (c # cs) =
     (if c = CHR ''<'' \<and> CHR ''>'' \<in> set cs
      then CHR '' '' # replace_tags (tl (dropWhile (\<lambda>x. x \<noteq> CHR ''>'') cs))
      else c # replace_tags cs)"
  by pat_completeness auto
termination
proof (relation "measure length")
  fix c :: char and cs :: string
  have "length (tl (dropWhile (\<lambda>x. x \<noteq> CHR ''>'') cs)) \<le> length cs"
    using length_dropWhile_le [of "\<lambda>x. x \<noteq> CHR ''>''" cs] by simp
  then show "(tl (dropWhile (\<lambda>x. x \<noteq> CHR ''>'') cs), c # cs) \<in> measure length"
    by simp
qed simp_all

text \<open>\<open>.replace(/\s+/g, ' ')\<close>\<close>

function collapse_space :: "string \<Rightarrow> string" where
  "collapse_space [] = []"
| "collapse_space (c # cs) =
     (if isWhiteSpace c then CHR '' '' # collapse_space (dropWhile isWhiteSpace cs)
      else c # collapse_space cs)"
  by pat_completeness auto
termination
proof (relation "measure length")
  fix c :: char and cs :: string
  show "(dropWhile isWhiteSpace cs, c # cs) \<in> measure length"
    using length_dropWhile_le [of isWhiteSpace cs] by simp
qed simp_all

definition stripTags :: "string option \<Rightarrow> string" where
  "stripTags html = js_trim (collapse_space (replace_tags (or_lit html [])))"

section \<open>Response mode from the priority (priority.js)\<close>






section \<open>The call, its activity and its dispatches\<close>

text \<open>
  An entry of the \<open>Activity\<close> array and an entry of the \<open>Dispatches\<close> array of
  \<open>GetCallExtraData\<close>, and the call of \<open>GetCall\<close>, with the fields the code reads.
  \<open>StatusId\<close> is a number when present.
\<close>

record activity_entry =
  a_Type :: "string option"
  a_Name :: "string option"
  a_StatusId :: "int option"
  a_Timestamp :: "string option"
  a_StatusText :: "string option"

record dispatch_entry =
  d_Type :: "string option"
  d_Name :: "string option"
  d_Location :: "string option"
  d_EnRouteTime :: "string option"
  d_ArrivedTime :: "string option"
  d_AtPatientTime :: "string option"
  d_ClearedTime :: "string option"

record call_data =
  CallId :: "string option"
  LoggedOn :: "string option"
  LoggedOnUtc :: "string option"
  Name :: "string option"
  Nature :: "string option"
  Note :: "string option"
  Address :: "string option"
  Type :: "string option"
  ContactName :: "string option"
  ContactInfo :: "string option"
  ExternalId :: "string option"
  Priority :: priority
  Geolocation :: "string option"
  UnitsCsv :: "string option"
  EnRouteTime :: "string option"
  ArrivedTime :: "string option"
  AtPatientTime :: "string option"
  ClearedTime :: "string option"
  UnitEnRouteTime :: "string option"
  UnitArrivedTime :: "string option"
  UnitAtPatientTime :: "string option"
  UnitClearedTime :: "string option"
  UnitBackInServiceTime :: "string option"
  BackInServiceTime :: "string option"
  ClosedOn :: "string option"
  call_Dispatches :: "dispatch_entry list option"

record extra_data =
  Dispatches :: "dispatch_entry list option"
  Activity :: "activity_entry list option"

section \<open>The batch script with sheet logging (final-with-sheets-fix.js)\<close>

text \<open>
  The script that fetches the calls, generates the XML of each, uploads it and logs the
  call to the sheet (in the source tree: \<open>unnamed/part_003\<close>; its usage comment gives the
  name). Its \<open>generateXML\<close> and \<open>logCallData\<close> are prefixed with \<open>final_\<close> here.
\<close>

text \<open>
  \<open>activityEvent(act, statusId)\<close> with a number, as every caller passes: the first entry
  with that \<open>StatusId\<close>, or \<open>{}\<close> (here \<open>None\<close>), and the \<open>Timestamp\<close> read from the result.
\<close>

definition activityEvent :: "activity_entry list \<Rightarrow> int \<Rightarrow> activity_entry option" where
  "activityEvent act statusId = find (\<lambda>e. a_StatusId e = Some statusId) act"

definition event_Timestamp :: "activity_entry option \<Rightarrow> string option" where
  "event_Timestamp ev = (case ev of None \<Rightarrow> None | Some e \<Rightarrow> a_Timestamp e)"

record lifecycle =
  enRoute :: string
  onScene :: string
  atPatient :: string
  cleared :: string
  backInService :: string

text \<open>The five timestamps of \<open>generateXML(call, activity)\<close>.\<close>

definition final_generateXML_times :: "call_data \<Rightarrow> activity_entry list \<Rightarrow> lifecycle" where
  "final_generateXML_times call activity =
     (let enRouteEvt = activityEvent activity 5;
          onSceneEvt = activityEvent activity 6;
          atPatientEvt = activityEvent activity 3;
          clearedEvt = activityEvent activity 8;
          returningEvt = activityEvent activity 9;
          availableEvt = activityEvent activity 2
      in \<lparr> enRoute = or_lit (event_Timestamp enRouteEvt) [],
           onScene = or_lit (event_Timestamp onSceneEvt) [],
           atPatient = or_lit (js_or (event_Timestamp atPatientEvt) (event_Timestamp onSceneEvt)) [],
           cleared =
             or_lit (js_or (js_or (js_or (event_Timestamp clearedEvt) (event_Timestamp returningEvt))
                        (event_Timestamp availableEvt)) (ClosedOn call)) [],
           backInService =
             or_lit (js_or (js_or (event_Timestamp returningEvt) (event_Timestamp availableEvt))
                        (event_Timestamp clearedEvt)) [] \<rparr>)"

text \<open>The five timestamps of the row of \<open>logCallData(call, activity, dispatches)\<close>.\<close>

definition final_logCallData_times :: "call_data \<Rightarrow> activity_entry list \<Rightarrow> lifecycle" where
  "final_logCallData_times call activity =
     (let enRouteEvent = activityEvent activity 5;
          onSceneEvent = activityEvent activity 6;
          atPatientEvent = activityEvent activity 3;
          clearedEvent = activityEvent activity 8;
          returningEvent = activityEvent activity 9;
          availableEvent = activityEvent activity 2;
          backInServiceEvent =
            (if truthy (event_Timestamp returningEvent) then returningEvent else availableEvent)
      in \<lparr> enRoute = or_lit (event_Timestamp enRouteEvent) [],
           onScene = or_lit (event_Timestamp onSceneEvent) [],
           atPatient = or_lit (js_or (event_Timestamp atPatientEvent) (event_Timestamp onSceneEvent)) [],
           cleared = or_lit (js_or (event_Timestamp clearedEvent) (ClosedOn call)) [],
           backInService = or_lit (event_Timestamp backInServiceEvent) [] \<rparr>)"

text \<open>
  The unit roster, computed by the same statements in \<open>generateXML\<close> and \<open>logCallData\<close>.
  A name is the \<open>Name\<close> of an entry, which an activity entry may lack.
\<close>

definition activityUnits :: "activity_entry list \<Rightarrow> string option list" where
  "activityUnits activity = map a_Name (filter (\<lambda>a. a_Type a = Some ''Unit'') activity)"

definition dispatchUnits :: "call_data \<Rightarrow> string option list" where
  "dispatchUnits call =
     (case call_Dispatches call of
        None \<Rightarrow> []
      | Some ds \<Rightarrow> map d_Name (filter (\<lambda>d. d_Type d = Some ''Unit'' \<and> truthy (d_Name d)) ds))"

definition allUnits :: "call_data \<Rightarrow> activity_entry list \<Rightarrow> string option list" where
  "allUnits call activity = activityUnits activity @ dispatchUnits call"

text \<open>\<open>[...new Set(xs)]\<close>: a set keeps its elements in the order of their first insertion.\<close>

definition new_Set :: "'a list \<Rightarrow> 'a list" where
  "new_Set xs = fold (\<lambda>x seen. if x \<in> set seen then seen else seen @ [x]) xs []"

definition uniqueUnits :: "call_data \<Rightarrow> activity_entry list \<Rightarrow> string option list" where
  "uniqueUnits call activity = new_Set (allUnits call activity)"

text \<open>\<open>Array.prototype.join\<close> writes a missing element as the empty string.\<close>

definition unitsCsv :: "call_data \<Rightarrow> activity_entry list \<Rightarrow> string" where
  "unitsCsv call activity =
     (let units = uniqueUnits call activity
      in if length units > 0 then js_join '', '' (map (\<lambda>u. case u of None \<Rightarrow> [] | Some n \<Rightarrow> n) units)
         else ''No Units'')"

text \<open>The value of \<open>ResponseModeToScene\<close> in \<open>generateXML\<close>.\<close>

definition priorityMap :: "(string \<times> string) list" where
  "priorityMap = [(''1560'', ''390''), (''1559'', ''395'')]"

definition final_generateXML_responseMode :: "call_data \<Rightarrow> text_or_member" where
  "final_generateXML_responseMode call =
     prop_or (obj_get priorityMap (property_key (Priority call))) ''395''"

text \<open>The value of the Response Mode column in \<open>logCallData\<close>.\<close>

definition final_logCallData_responseMode :: "call_data \<Rightarrow> string" where
  "final_logCallData_responseMode call =
     (let responseMode = ''395'';
          responseMode =
            (if truthy (Nature call) \<and> keyword_test (stripTags (Nature call)) then ''390''
             else responseMode);
          responseMode = (if Priority call = Prim (JStr ''1559'') then ''390'' else responseMode)
      in responseMode)"

section \<open>The logger module (src/logger.js)\<close>

text \<open>
  What a property of an object holds, as far as a call through it is concerned: a function
  or an object with properties of its own.
\<close>

datatype js_member = Function | Object "(string \<times> js_member) list"

text \<open>
  \<open>enhancedLogger\<close>: the object with the methods \<open>info\<close>, \<open>warn\<close>, \<open>error\<close>, \<open>debug\<close> and
  \<open>log\<close>.
\<close>

definition enhancedLogger :: js_member where
  "enhancedLogger =
     Object [(''info'', Function), (''warn'', Function), (''error'', Function),
             (''debug'', Function), (''log'', Function)]"

text \<open>\<open>module.exports = { logger: enhancedLogger, legacyLog }\<close>\<close>

definition logger_exports :: js_member where
  "logger_exports = Object [(''logger'', enhancedLogger), (''legacyLog'', Function)]"

text \<open>
  The read of a property, \<open>None\<close> for \<open>undefined\<close>. The keys read from these objects
  (\<open>logger\<close>, \<open>info\<close>, \<open>warn\<close>, \<open>error\<close>, \<open>debug\<close>) are not names of members of
  \<open>Object.prototype\<close>, so a key that is not an own property reads as \<open>undefined\<close>.
\<close>

fun own_property :: "js_member \<Rightarrow> string \<Rightarrow> js_member option" where
  "own_property (Object members) key = map_of members key"
| "own_property Function key = None"

text \<open>
  The call \<open>logger.name(...)\<close> on what the variable \<open>logger\<close> is bound to (\<open>None\<close> when it is
  \<open>undefined\<close>): \<open>None\<close> when the call returns, or the message of the \<open>TypeError\<close> that it
  throws. A call of a function returns; what the logger writes is outside the model.
\<close>

definition call_method :: "js_member option \<Rightarrow> string \<Rightarrow> string option" where
  "call_method logger name =
     (case logger of
        None \<Rightarrow>
          Some (''Cannot read properties of undefined (reading '' @ [CHR 0x27] @ name @
                [CHR 0x27] @ '')'')
      | Some obj \<Rightarrow>
          (case own_property obj name of
             Some Function \<Rightarrow> None
           | _ \<Rightarrow> Some (''logger.'' @ name @ '' is not a function'')))"

text \<open>
  The two ways the module is required: \<open>const logger = require('./logger')\<close> in retry-util
  binds the whole export; \<open>const { logger } = require('./logger')\<close> in sftp-client.js (and
  in every other module of the program) binds its \<open>logger\<close> property.
\<close>

definition retry_util_logger :: "js_member option" where
  "retry_util_logger = Some logger_exports"

definition sftp_client_logger :: "js_member option" where
  "sftp_client_logger = own_property logger_exports ''logger''"

section \<open>Retry with backoff (retry-util: withRetry)\<close>

text \<open>
  The module that \<open>sftp-client.js\<close> requires as \<open>./retry-util\<close> (in the source tree:
  \<open>unnamed/part_006\<close>).
\<close>

text \<open>
  What the wrapper catches and throws: the error \<open>fn\<close> rejected with, or a \<open>TypeError\<close> with
  its message, thrown by a call that is not possible.
\<close>

datatype 'e thrown = TypeError string | Thrown 'e

text \<open>
  The options object of \<open>withRetry\<close>. The counts and delays are JavaScript numbers used as
  non-negative integers (a count of retries, milliseconds); they are modelled as \<open>nat\<close>.
\<close>

record 'e retry_options =
  maxRetries :: nat
  initialDelay :: nat
  maxDelay :: nat
  exponential :: bool
  shouldRetry :: "'e thrown \<Rightarrow> bool"

text \<open>What the wrapper does that a caller can observe: it invokes \<open>fn\<close> and it sleeps.\<close>

datatype retry_event = Attempt | Sleep nat

text \<open>
  \<open>delay = initialDelay; if (exponential) delay = Math.min(initialDelay * Math.pow(2, retryCount), maxDelay)\<close>
\<close>

definition retry_delay :: "'e retry_options \<Rightarrow> nat \<Rightarrow> nat" where
  "retry_delay opts retryCount =
     (if exponential opts then min (initialDelay opts * 2 ^ retryCount) (maxDelay opts)
      else initialDelay opts)"

text \<open>
  The \<open>try\<close> block of the loop: \<open>if (retryCount > 0) logger.info(...); return await fn()\<close>.
  \<open>fn k\<close> is the outcome of the invocation of the wrapped operation made while
  \<open>retryCount = k\<close> (\<open>Inl\<close> a thrown error, \<open>Inr\<close> a returned value). The result is the value
  returned or the error that reaches the \<open>catch\<close> block, with the events of the block.
\<close>

definition try_block ::
  "js_member option \<Rightarrow> (nat \<Rightarrow> 'e + 'a) \<Rightarrow> nat \<Rightarrow> ('e thrown + 'a) \<times> retry_event list" where
  "try_block logger fn retryCount =
     (case (if retryCount > 0 then call_method logger ''info'' else None) of
        Some typeError \<Rightarrow> (Inl (TypeError typeError), [])
      | None \<Rightarrow>
          (case fn retryCount of
             Inl e \<Rightarrow> (Inl (Thrown e), [Attempt])
           | Inr v \<Rightarrow> (Inr v, [Attempt])))"

text \<open>
  The \<open>while (retryCount <= maxRetries)\<close> loop, with the binding of \<open>logger\<close> as a parameter.
  In the \<open>catch\<close> block \<open>logger.error\<close> is called before the error is thrown again and
  \<open>logger.warn\<close> before the sleep; an error thrown by one of these calls leaves the wrapper.
  The result is the value returned or the error thrown by the wrapper (\<open>None\<close> is the
  \<open>undefined\<close> that \<open>lastError\<close> holds before any failure), with the events in order.
\<close>

function withRetry_loop ::
  "js_member option \<Rightarrow> 'e retry_options \<Rightarrow> (nat \<Rightarrow> 'e + 'a) \<Rightarrow> nat \<Rightarrow> 'e thrown option
     \<Rightarrow> retry_event list \<Rightarrow> ('e thrown option + 'a) \<times> retry_event list" where
  "withRetry_loop logger opts fn retryCount lastError trace =
     (if retryCount \<le> maxRetries opts then
        (case try_block logger fn retryCount of
           (Inr v, events) \<Rightarrow> (Inr v, trace @ events)
         | (Inl error, events) \<Rightarrow>
             if retryCount \<ge> maxRetries opts \<or> \<not> shouldRetry opts error
             then (case call_method logger ''error'' of
                     Some typeError \<Rightarrow> (Inl (Some (TypeError typeError)), trace @ events)
                   | None \<Rightarrow> (Inl (Some error), trace @ events))
             else (case call_method logger ''warn'' of
                     Some typeError \<Rightarrow> (Inl (Some (TypeError typeError)), trace @ events)
                   | None \<Rightarrow>
                       withRetry_loop logger opts fn (retryCount + 1) (Some error)
                         (trace @ events @ [Sleep (retry_delay opts retryCount)])))
      else (Inl lastError, trace))"
  by pat_completeness auto
termination
  by (relation "measure (\<lambda>(logger, opts, fn, retryCount, lastError, trace).
                   Suc (maxRetries opts) - retryCount)")
     auto

declare withRetry_loop.simps [simp del]

text \<open>\<open>withRetry(fn, options)\<close> of the module, with the module's binding of \<open>logger\<close>.\<close>

definition withRetry ::
  "(nat \<Rightarrow> 'e + 'a) \<Rightarrow> 'e retry_options \<Rightarrow> ('e thrown option + 'a) \<times> retry_event list" where
  "withRetry fn opts = withRetry_loop retry_util_logger opts fn 0 None []"

definition attempts :: "retry_event list \<Rightarrow> nat" where
  "attempts trace = length (filter (\<lambda>ev. ev = Attempt) trace)"

fun sleeps :: "retry_event list \<Rightarrow> nat list" where
  "sleeps [] = []"
| "sleeps (Attempt # evs) = sleeps evs"
| "sleeps (Sleep d # evs) = d # sleeps evs"

section \<open>Delivery with a fingerprint cache (sftp-client.js)\<close>

text \<open>
  The module-level \<open>fileFingerprints\<close> map, from the cache key to the SHA-256 of the file as
  a hex string.
\<close>

type_synonym fingerprints = "string \<rightharpoonup> string"

definition cacheKey :: "string \<Rightarrow> string \<Rightarrow> string" where
  "cacheKey filePath remoteFilePath = filePath @ '':'' @ remoteFilePath"

text \<open>
  \<open>hasFileChanged(filePath, remoteFilePath)\<close>. \<open>fp\<close> is what \<open>calculateFileFingerprint\<close>
  gives for the file: \<open>Inr\<close> the hash, or \<open>Inl\<close> the message of the error it rejects with.
  The result is the boolean with the cache as the call leaves it.
\<close>

definition hasFileChanged ::
  "fingerprints \<Rightarrow> string + string \<Rightarrow> string \<Rightarrow> string \<Rightarrow> bool \<times> fingerprints" where
  "hasFileChanged cache fp filePath remoteFilePath =
     (case fp of
        Inl message \<Rightarrow> (True, cache)
      | Inr newFingerprint \<Rightarrow>
          (let key = cacheKey filePath remoteFilePath;
               oldFingerprint = cache key;
               cache' = cache(key \<mapsto> newFingerprint)
           in if \<not> truthy oldFingerprint then (True, cache')
              else (Some newFingerprint \<noteq> oldFingerprint, cache')))"

text \<open>The \<open>shouldRetry\<close> option of the upload, on the message of the error.\<close>

definition nonRetryableErrors :: "string list" where
  "nonRetryableErrors =
     [''authentication'', ''permission denied'', ''invalid credentials'',
      ''authorization'', ''access denied'']"

definition sftp_shouldRetry :: "string \<Rightarrow> bool" where
  "sftp_shouldRetry message =
     (\<not> list_ex (\<lambda>phrase. js_includes (toLowerCase message) phrase) nonRetryableErrors)"

text \<open>\<open>error.message\<close>, the errors of the transfer being given by their messages.\<close>

fun error_message :: "string thrown \<Rightarrow> string" where
  "error_message (TypeError m) = m"
| "error_message (Thrown m) = m"

definition sftp_retry_options :: "string retry_options" where
  "sftp_retry_options =
     \<lparr> maxRetries = 5, initialDelay = 3000, maxDelay = 60000, exponential = True,
       shouldRetry = (\<lambda>error. sftp_shouldRetry (error_message error)) \<rparr>"

text \<open>
  \<open>uploadFileToSFTP(localFilePath, remoteFilePath)\<close>. \<open>transfer k\<close> is the outcome of the
  connect-and-put function on its invocation number \<open>k\<close>: \<open>Inr True\<close>, or \<open>Inl\<close> the message of
  the error thrown. The result is \<open>Inr False\<close> for a skipped upload, \<open>Inr True\<close> for a
  successful one, \<open>Inl\<close> for the error thrown, with the cache and the retry events. The
  calls of \<open>logger\<close> in this module go to \<open>sftp_client_logger\<close>, whose methods are functions.
\<close>

definition uploadFileToSFTP ::
  "fingerprints \<Rightarrow> string + string \<Rightarrow> (nat \<Rightarrow> string + bool) \<Rightarrow> string \<Rightarrow> string
     \<Rightarrow> (string thrown option + bool) \<times> fingerprints \<times> retry_event list" where
  "uploadFileToSFTP cache fp transfer localFilePath remoteFilePath =
     (let (hasChanged, cache') = hasFileChanged cache fp localFilePath remoteFilePath
      in if \<not> hasChanged then (Inr False, cache', [])
         else (let (res, events) = withRetry transfer sftp_retry_options
               in (res, cache', events)))"

section \<open>The XML generator (src/xml-generator.js)\<close>

text \<open>
  The model starts where \<open>callGetData\<close> and \<open>extraGetData\<close> have been taken out of the
  arguments (the raw objects passed directly), and leaves the debug logging out.
\<close>

text \<open>\<open>contactName.trim().split(' ')\<close> into first and last name.\<close>

definition splitContactName :: "string \<Rightarrow> string \<times> string" where
  "splitContactName contactName =
     (if contactName = [] then ([], [])
      else (let nameParts = js_split CHR '' '' (js_trim contactName)
            in if length nameParts \<ge> 2 then (hd nameParts, js_join '' '' (tl nameParts))
               else if length nameParts = 1 then (hd nameParts, [])
               else ([], [])))"

text \<open>\<open>xs[i] || ''\<close> on an array of strings.\<close>

definition nth_or_empty :: "string list \<Rightarrow> nat \<Rightarrow> string" where
  "nth_or_empty xs i = (if i < length xs then xs ! i else [])"

record address_parts =
  streetAddress :: string
  city :: string
  state :: string
  zipCode :: string

definition parseAddressParts :: "string \<Rightarrow> address_parts" where
  "parseAddressParts address =
     (if address = [] then \<lparr> streetAddress = [], city = [], state = [], zipCode = [] \<rparr>
      else
        (let addressParts = map js_trim (js_split CHR '','' address);
             street = nth_or_empty addressParts 0
         in if length addressParts \<ge> 3 then
              (if nth_or_empty addressParts 2 \<noteq> [] then
                 (let stateZipParts = filter (\<lambda>p. p \<noteq> []) (js_split CHR '' '' (addressParts ! 2))
                  in \<lparr> streetAddress = street, city = nth_or_empty addressParts 1,
                       state = nth_or_empty stateZipParts 0, zipCode = nth_or_empty stateZipParts 1 \<rparr>)
               else \<lparr> streetAddress = street, city = nth_or_empty addressParts 1,
                      state = [], zipCode = [] \<rparr>)
            else \<lparr> streetAddress = street, city = [], state = [], zipCode = [] \<rparr>))"

text \<open>The priority id: \<open>"1560"\<close> unless the call has a truthy \<open>Priority\<close>.\<close>

definition priorityId_of :: "priority \<Rightarrow> string" where
  "priorityId_of p =
     (if priority_truthy p then
        (case p of
           Obj i n \<Rightarrow> if js_truthy i then String_js i else ''[object Object]''
         | Prim v \<Rightarrow> String_js v)
      else ''1560'')"

definition responseModeMap :: "(string \<times> string) list" where
  "responseModeMap = [(''1559'', ''395''), (''1560'', ''390'')]"

text \<open>
  The response mode: \<open>"395"\<close> on a keyword of the nature; while it is still \<open>"390"\<close>, the
  priority id looked up in \<open>responseModeMap\<close>, or \<open>"390"\<close>.
\<close>

definition generateXML_responseMode :: "call_data \<Rightarrow> text_or_member" where
  "generateXML_responseMode callGetData =
     (let nature = or_lit (Nature callGetData) [];
          responseMode = (if nature \<noteq> [] \<and> keyword_test nature then ''395'' else ''390'')
      in if responseMode = ''390''
         then prop_or (obj_get responseModeMap (priorityId_of (Priority callGetData))) ''390''
         else Text responseMode)"

definition parseGeolocation :: "string option \<Rightarrow> string \<times> string" where
  "parseGeolocation geo =
     (if truthy geo then
        (let geoparts = js_split CHR '','' (or_lit geo [])
         in if length geoparts = 2 then (geoparts ! 0, geoparts ! 1) else ([], []))
      else ([], []))"

text \<open>The unit and its times: the \<open>let\<close> variables that the statements below assign.\<close>

record unit_state =
  unitName :: string
  unitLocation :: string
  unitEnRouteTime :: string
  unitArrivedOnSceneTime :: string
  unitAtPatientTime :: string
  unitClearedTime :: string
  unitBackInServiceTime :: string

definition initial_unit_state :: unit_state where
  "initial_unit_state =
     \<lparr> unitName = [], unitLocation = [], unitEnRouteTime = [], unitArrivedOnSceneTime = [],
       unitAtPatientTime = [], unitClearedTime = [], unitBackInServiceTime = [] \<rparr>"

text \<open>\<open>u.length <= 9 && /^[a-zA-Z0-9]+$/.test(u)\<close>\<close>

definition validUnitName :: "string \<Rightarrow> bool" where
  "validUnitName u = (length u \<le> 9 \<and> alphanumeric u)"

text \<open>The first valid name of \<open>UnitsCsv\<close>, split at commas and trimmed.\<close>

definition from_UnitsCsv :: "call_data \<Rightarrow> unit_state \<Rightarrow> unit_state" where
  "from_UnitsCsv callGetData st =
     (if truthy (UnitsCsv callGetData) then
        (let unitsList = map js_trim (js_split CHR '','' (or_lit (UnitsCsv callGetData) []))
         in case find validUnitName unitsList of
              None \<Rightarrow> st
            | Some validUnit \<Rightarrow> if validUnit \<noteq> [] then st\<lparr>unitName := validUnit\<rparr> else st)
      else st)"

definition validDispatch :: "dispatch_entry \<Rightarrow> bool" where
  "validDispatch d =
     (d_Type d = Some ''Unit'' \<and> truthy (d_Name d) \<and> validUnitName (or_lit (d_Name d) []))"

text \<open>
  Without a unit so far, the first valid dispatch gives the name, the location and the
  times it carries.
\<close>

definition from_Dispatches :: "extra_data \<Rightarrow> unit_state \<Rightarrow> unit_state" where
  "from_Dispatches extraGetData st =
     (if unitName st = [] then
        (case Dispatches extraGetData of
           None \<Rightarrow> st
         | Some ds \<Rightarrow>
             (case filter validDispatch ds of
                [] \<Rightarrow> st
              | d # rest \<Rightarrow>
                  st\<lparr> unitName := or_lit (d_Name d) [],
                      unitLocation := or_lit (d_Location d) [],
                      unitEnRouteTime := or_lit (d_EnRouteTime d) (unitEnRouteTime st),
                      unitArrivedOnSceneTime := or_lit (d_ArrivedTime d) (unitArrivedOnSceneTime st),
                      unitAtPatientTime := or_lit (d_AtPatientTime d) (unitAtPatientTime st),
                      unitClearedTime := or_lit (d_ClearedTime d) (unitClearedTime st) \<rparr>))
      else st)"

definition backInServiceKeywords :: "string list" where
  "backInServiceKeywords =
     [''returning'', ''available'', ''cleared'', ''in service'', ''in quarter'', ''complete'']"

definition validUnitActivity :: "string \<Rightarrow> activity_entry \<Rightarrow> bool" where
  "validUnitActivity name a =
     (a_Type a = Some ''Unit'' \<and> a_Name a = Some name \<and> truthy (a_Timestamp a) \<and>
      (case a_StatusId a of None \<Rightarrow> False | Some n \<Rightarrow> n \<noteq> 0))"

definition hasBackInServiceKeyword :: "activity_entry \<Rightarrow> bool" where
  "hasBackInServiceKeyword a =
     (truthy (a_StatusText a) \<and>
      list_ex (\<lambda>keyword. js_includes (toLowerCase (or_lit (a_StatusText a) [])) keyword)
        backInServiceKeywords)"

text \<open>The times from the activity entries of the unit.\<close>

definition from_Activity :: "extra_data \<Rightarrow> unit_state \<Rightarrow> unit_state" where
  "from_Activity extraGetData st =
     (case Activity extraGetData of
        None \<Rightarrow> st
      | Some activity \<Rightarrow>
          (let validUnitActivities = filter (validUnitActivity (unitName st)) activity;
               enRouteActivity = find (\<lambda>a. a_StatusId a = Some 5) validUnitActivities;
               onSceneActivity = find (\<lambda>a. a_StatusId a = Some 6) validUnitActivities;
               backInServiceByKeyword = find hasBackInServiceKeyword validUnitActivities;
               availableActivity = find (\<lambda>a. a_StatusId a = Some 2) validUnitActivities
           in st\<lparr> unitEnRouteTime :=
                     or_lit (event_Timestamp enRouteActivity) (unitEnRouteTime st),
                   unitArrivedOnSceneTime :=
                     or_lit (event_Timestamp onSceneActivity) (unitArrivedOnSceneTime st),
                   unitBackInServiceTime :=
                     (if truthy (event_Timestamp backInServiceByKeyword)
                      then or_lit (event_Timestamp backInServiceByKeyword) []
                      else or_lit (event_Timestamp availableActivity) (unitBackInServiceTime st)) \<rparr>))"

text \<open>\<open>if (!cur && v) cur = v\<close>\<close>

definition fill :: "string \<Rightarrow> string option \<Rightarrow> string" where
  "fill cur v = (if cur = [] then or_lit v [] else cur)"

text \<open>The times still empty are taken from the call, and back in service from cleared.\<close>

definition from_call :: "call_data \<Rightarrow> unit_state \<Rightarrow> unit_state" where
  "from_call callGetData st =
     (let enRouteT = fill (fill (unitEnRouteTime st) (EnRouteTime callGetData))
                       (UnitEnRouteTime callGetData);
          arrivedT = fill (fill (unitArrivedOnSceneTime st) (ArrivedTime callGetData))
                       (UnitArrivedTime callGetData);
          atPatientT = fill (fill (unitAtPatientTime st) (AtPatientTime callGetData))
                         (UnitAtPatientTime callGetData);
          clearedT = fill (fill (unitClearedTime st) (ClearedTime callGetData))
                       (UnitClearedTime callGetData);
          backT = fill (fill (unitBackInServiceTime st) (UnitBackInServiceTime callGetData))
                    (BackInServiceTime callGetData);
          backT = (if backT = [] \<and> clearedT \<noteq> [] then clearedT else backT)
      in st\<lparr> unitEnRouteTime := enRouteT, unitArrivedOnSceneTime := arrivedT,
              unitAtPatientTime := atPatientT, unitClearedTime := clearedT,
              unitBackInServiceTime := backT \<rparr>)"

definition unit_and_times :: "call_data \<Rightarrow> extra_data \<Rightarrow> unit_state" where
  "unit_and_times callGetData extraGetData =
     from_call callGetData
       (from_Activity extraGetData
          (from_Dispatches extraGetData (from_UnitsCsv callGetData initial_unit_state)))"

text \<open>
  What the JavaScript engine supplies: the date of birth that lines 269 to 276 format
  from a truthy \<open>ExternalId\<close> with \<open>Date\<close>, and the text of a member of \<open>Object.prototype\<close>
  in a template.
\<close>

record engine =
  formatDOB :: "string \<Rightarrow> string"
  member_text :: "string \<Rightarrow> string"

definition template_text :: "engine \<Rightarrow> text_or_member \<Rightarrow> string" where
  "template_text eng v = (case v of Text s \<Rightarrow> s | Member k \<Rightarrow> member_text eng k)"

text \<open>One line of the template: \<open>  <tag>${value}</tag>\<close>.\<close>

definition element :: "string \<Rightarrow> string \<Rightarrow> string" where
  "element tag v = ''  <'' @ tag @ ''>'' @ v @ ''</'' @ tag @ ''>''"

definition generateXML_lines :: "engine \<Rightarrow> call_data \<Rightarrow> extra_data \<Rightarrow> string list" where
  \<open>generateXML_lines eng callGetData extraGetData =
     (let callId = or_lit (CallId callGetData) [];
          loggedOn = or_lit (js_or (LoggedOn callGetData) (LoggedOnUtc callGetData)) [];
          name = or_lit (Name callGetData) [];
          nature = or_lit (Nature callGetData) [];
          note = or_lit (Note callGetData) [];
          address = remove_newlines (or_lit (Address callGetData) []);
          contactName = or_lit (ContactName callGetData) [];
          externalId = or_lit (ExternalId callGetData) [];
          (patientFirstName, patientLastName) = splitContactName contactName;
          a = parseAddressParts address;
          responseMode = generateXML_responseMode callGetData;
          (latitude, longitude) = parseGeolocation (Geolocation callGetData);
          u = unit_and_times callGetData extraGetData;
          callNatureDescription = nature @ (if note \<noteq> [] then '' - '' @ note else []);
          formattedDOB = (if externalId \<noteq> [] then formatDOB eng externalId else [])
      in [''<?xml version="1.0" encoding="UTF-8"?>'',
          ''<CadIncident xmlns_xsi="http://www.w3.org/2001/XMLSchema-instance">'',
          element ''IncidentNumber'' callId,
          element ''IncidentOrOnset'' loggedOn,
          element ''DispatchNotified'' loggedOn,
          element ''IncidentAddress1'' (streetAddress a),
          element ''IncidentCity'' (city a),
          element ''IncidentState'' (state a),
          element ''IncidentZip'' (zipCode a),
          element ''CadDispatchText'' nature,
          element ''EmsUnitCallSign'' (unitName u),
          element ''UnitNotifiedByDispatch'' loggedOn,
          element ''ResponseModeToScene'' (template_text eng responseMode),
          element ''CallNature'' name,
          element ''CallNatureDescription'' callNatureDescription,
          element ''UnitEnRoute'' (unitEnRouteTime u),
          element ''UnitArrivedOnScene'' (unitArrivedOnSceneTime u),
          element ''UnitAtPatient'' (unitAtPatientTime u),
          element ''UnitCleared'' (unitClearedTime u),
          element ''UnitBackInService'' (unitBackInServiceTime u),
          element ''SceneGpsLocationLat'' latitude,
          element ''SceneGpsLocationLong'' longitude,
          element ''PatientFirstName'' patientFirstName,
          element ''PatientLastName'' patientLastName,
          element ''PatientDOB'' formattedDOB,
          ''</CadIncident>''])\<close>

definition generateXML :: "engine \<Rightarrow> call_data \<Rightarrow> extra_data \<Rightarrow> string" where
  "generateXML eng callGetData extraGetData =
     js_join [CHR 0x0A] (generateXML_lines eng callGetData extraGetData)"

section \<open>The sheet row (sheets-logger-new.js)\<close>

text \<open>The priority id and the priority text of \<open>sheetCallRow\<close>.\<close>

definition sheet_priority :: "priority \<Rightarrow> string \<times> string" where
  "sheet_priority p =
     (if priority_truthy p then
        (case p of
           Obj i n \<Rightarrow>
             if js_truthy n then ((if js_truthy i then String_js i else ''1560''), String_js n)
             else (''[object Object]'', ''[object Object]'')
         | Prim v \<Rightarrow>
             (let priorityId = String_js v
              in (priorityId,
                  if priorityId = ''1560'' then ''Emergent''
                  else if priorityId = ''1559'' then ''Non-emergent''
                  else String_js v)))
      else (''1560'', []))"

definition sheet_responseModeMap :: "(string \<times> string) list" where
  "sheet_responseModeMap = [(''1560'', ''390''), (''1559'', ''395'')]"

definition sheetCallRow_responseMode :: "call_data \<Rightarrow> text_or_member" where
  "sheetCallRow_responseMode callGetData =
     prop_or (obj_get sheet_responseModeMap (fst (sheet_priority (Priority callGetData)))) ''390''"

definition sheetCallRow_responseModeText :: "call_data \<Rightarrow> string" where
  "sheetCallRow_responseModeText callGetData =
     (if sheetCallRow_responseMode callGetData = Text ''390'' then ''Lights & Sirens''
      else ''No Lights & Sirens'')"

text \<open>City, state and zip of the row; the Address column holds the whole address.\<close>

definition sheet_address :: "string \<Rightarrow> string \<times> string \<times> string" where
  "sheet_address address =
     (let a = parseAddressParts address in (city a, state a, zipCode a))"

text \<open>
  The 24 values of the row that \<open>sheetCallRow\<close> appends; \<open>timestamp\<close> is the time of the
  export. The unit and its times come from the same statements as in the XML generator.
\<close>

definition sheetCallRow_values :: "string \<Rightarrow> call_data \<Rightarrow> extra_data \<Rightarrow> string list" where
  "sheetCallRow_values timestamp callGetData extraGetData =
     (let callId = or_lit (CallId callGetData) [];
          callType = or_lit (Type callGetData) [];
          nature = or_lit (Nature callGetData) [];
          note = or_lit (Note callGetData) [];
          address = remove_newlines (or_lit (Address callGetData) []);
          (city, state, zipCode) = sheet_address address;
          priorityText = snd (sheet_priority (Priority callGetData));
          responseModeText = sheetCallRow_responseModeText callGetData;
          (latitude, longitude) = parseGeolocation (Geolocation callGetData);
          u = unit_and_times callGetData extraGetData;
          contactName = or_lit (ContactName callGetData) [];
          contactInfo = or_lit (ContactInfo callGetData) [];
          externalId = or_lit (ExternalId callGetData) [];
          (patientFirstName, patientLastName) = splitContactName contactName
      in [timestamp, callId, callType, nature, note, address, city, state, zipCode, priorityText,
          responseModeText, unitName u, unitLocation u, unitEnRouteTime u,
          unitArrivedOnSceneTime u, unitAtPatientTime u, unitClearedTime u,
          unitBackInServiceTime u, latitude, longitude, patientFirstName, patientLastName,
          contactInfo, externalId])"

section \<open>Objects without fields\<close>

text \<open>The objects \<open>{}\<close>, from which the concrete inputs below are built by update.\<close>

definition empty_call :: call_data where
  "empty_call =
     \<lparr> CallId = None, LoggedOn = None, LoggedOnUtc = None, Name = None, Nature = None,
       Note = None, Address = None, Type = None, ContactName = None, ContactInfo = None,
       ExternalId = None, Priority = Prim JUndefined, Geolocation = None, UnitsCsv = None,
       EnRouteTime = None, ArrivedTime = None, AtPatientTime = None, ClearedTime = None,
       UnitEnRouteTime = None, UnitArrivedTime = None, UnitAtPatientTime = None,
       UnitClearedTime = None, UnitBackInServiceTime = None, BackInServiceTime = None,
       ClosedOn = None, call_Dispatches = None \<rparr>"

definition empty_dispatch :: dispatch_entry where
  "empty_dispatch =
     \<lparr> d_Type = None, d_Name = None, d_Location = None, d_EnRouteTime = None,
       d_ArrivedTime = None, d_AtPatientTime = None, d_ClearedTime = None \<rparr>"

definition empty_extra :: extra_data where
  "empty_extra = \<lparr> Dispatches = None, Activity = None \<rparr>"

text \<open>An activity entry of a unit with a status and its time.\<close>

definition unit_status :: "string \<Rightarrow> int \<Rightarrow> string \<Rightarrow> activity_entry" where
  "unit_status name statusId timestamp =
     \<lparr> a_Type = Some ''Unit'', a_Name = Some name, a_StatusId = Some statusId,
       a_Timestamp = Some timestamp, a_StatusText = None \<rparr>"

definition unit_dispatch :: "string \<Rightarrow> dispatch_entry" where
  "unit_dispatch name = empty_dispatch\<lparr> d_Type := Some ''Unit'', d_Name := Some name \<rparr>"

text \<open>The position of the first occurrence of \<open>x\<close> in \<open>xs\<close> (the length of \<open>xs\<close> without one).\<close>

definition first_index :: "'a \<Rightarrow> 'a list \<Rightarrow> nat" where
  "first_index x xs = length (takeWhile (\<lambda>y. y \<noteq> x) xs)"

text \<open>
  The names a unit can be chosen from: the trimmed parts of \<open>UnitsCsv\<close> and the names of the
  dispatch entries of type \<open>Unit\<close>.
\<close>

definition unit_candidates :: "call_data \<Rightarrow> extra_data \<Rightarrow> string set" where
  "unit_candidates callGetData extraGetData =
     (if truthy (UnitsCsv callGetData)
      then set (map js_trim (js_split CHR '','' (or_lit (UnitsCsv callGetData) []))) else {}) \<union>
     (case Dispatches extraGetData of
        None \<Rightarrow> {}
      | Some ds \<Rightarrow> {n. \<exists>d \<in> set ds. d_Type d = Some ''Unit'' \<and> d_Name d = Some n})"

text \<open>An engine for the concrete inputs below.\<close>

definition plain_engine :: engine where
  "plain_engine = \<lparr> formatDOB = (\<lambda>s. s), member_text = (\<lambda>k. []) \<rparr>"

section \<open>The keywords as the specification lists them\<close>



section \<open>The language of the keyword pattern\<close>



section \<open>The first entry with a status\<close>

text \<open>
  \<open>first_time activity s t\<close>: the first entry of the activity with status \<open>s\<close> carries the
  non-empty timestamp \<open>t\<close>. \<open>no_time activity s\<close>: there is no entry with status \<open>s\<close>, or the
  first one has no timestamp.
\<close>

definition first_time :: "activity_entry list \<Rightarrow> int \<Rightarrow> string \<Rightarrow> bool" where
  "first_time activity s t =
     (t \<noteq> [] \<and>
      (\<exists>i < length activity.
         a_StatusId (activity ! i) = Some s \<and> (\<forall>j < i. a_StatusId (activity ! j) \<noteq> Some s) \<and>
         a_Timestamp (activity ! i) = Some t))"

definition no_time :: "activity_entry list \<Rightarrow> int \<Rightarrow> bool" where
  "no_time activity s = (\<forall>t. \<not> first_time activity s t)"

text \<open>An activity entry of a person (a user of the platform): its type is not \<open>Unit\<close>.\<close>

definition user_status :: "string \<Rightarrow> int \<Rightarrow> string \<Rightarrow> activity_entry" where
  "user_status name statusId timestamp =
     \<lparr> a_Type = Some ''User'', a_Name = Some name, a_StatusId = Some statusId,
       a_Timestamp = Some timestamp, a_StatusText = None \<rparr>"

section \<open>The retry bound\<close>

lemma attempts_append: "attempts (xs @ ys) = attempts xs + attempts ys"
  by (simp add: attempts_def)

lemma attempts_single: "attempts [Attempt] = 1"
  by (simp add: attempts_def)

lemma sleeps_append: "sleeps (xs @ ys) = sleeps xs @ sleeps ys"
  by (induction xs rule: sleeps.induct) auto

lemma attempts_rounds:
  "attempts (concat (map (\<lambda>k. [Attempt, Sleep (retry_delay opts k)]) [i..<j])) = j - i"
  unfolding attempts_def by (induction j) auto

lemma sleeps_rounds:
  "sleeps (concat (map (\<lambda>k. [Attempt, Sleep (retry_delay opts k)]) [i..<j])) =
     map (retry_delay opts) [i..<j]"
  by (induction j) (auto simp: sleeps_append)

subsection \<open>The two bindings of the logger\<close>

text \<open>
  The property of the export that sftp-client.js binds has the four logging methods; the
  export itself, which retry-util binds, has none of them.
\<close>

lemma sftp_client_logger_methods:
  "call_method sftp_client_logger ''info'' = None"
  "call_method sftp_client_logger ''warn'' = None"
  "call_method sftp_client_logger ''error'' = None"
  "call_method sftp_client_logger ''debug'' = None"
  by (simp_all add: call_method_def sftp_client_logger_def logger_exports_def enhancedLogger_def)

lemma retry_util_logger_methods:
  "call_method retry_util_logger ''info'' = Some ''logger.info is not a function''"
  "call_method retry_util_logger ''warn'' = Some ''logger.warn is not a function''"
  "call_method retry_util_logger ''error'' = Some ''logger.error is not a function''"
  by (simp_all add: call_method_def retry_util_logger_def logger_exports_def)

lemma logger_keys_not_inherited:
  "set [''logger'', ''info'', ''warn'', ''error'', ''debug''] \<inter> set object_prototype_keys = {}"
  by (simp add: object_prototype_keys_def)

subsection \<open>The loop with a logger whose methods are functions\<close>

text \<open>
  With a logger that has the methods, when every invocation fails with an error that may
  be retried, the loop started at \<open>retryCount\<close> makes one attempt and one sleep for each
  count below \<open>maxRetries\<close>, then a last attempt, and throws the last error.
\<close>

lemma try_block_failure:
  "call_method logger ''info'' = None \<Longrightarrow> fn k = Inl e \<Longrightarrow>
     try_block logger fn k = (Inl (Thrown e), [Attempt])"
  by (cases "k = 0") (simp_all add: try_block_def)

lemma withRetry_loop_all_fail:
  assumes "call_method logger ''info'' = None"
    and "call_method logger ''warn'' = None"
    and "call_method logger ''error'' = None"
    and "\<forall>k\<le>maxRetries opts. fn k = Inl (err k) \<and> shouldRetry opts (Thrown (err k))"
    and "retryCount \<le> maxRetries opts"
  shows "withRetry_loop logger opts fn retryCount lastError trace =
           (Inl (Some (Thrown (err (maxRetries opts)))),
            trace @ concat (map (\<lambda>k. [Attempt, Sleep (retry_delay opts k)])
                              [retryCount..<maxRetries opts]) @ [Attempt])"
  using assms(5)
proof (induction "maxRetries opts - retryCount" arbitrary: retryCount lastError trace)
  case 0
  then have eq: "retryCount = maxRetries opts" by simp
  have "fn retryCount = Inl (err retryCount)" using assms(4) eq by simp
  then have "try_block logger fn retryCount = (Inl (Thrown (err retryCount)), [Attempt])"
    by (rule try_block_failure [OF assms(1)])
  then show ?case
    using eq assms(3) by (subst withRetry_loop.simps) simp
next
  case (Suc d)
  then have lt: "retryCount < maxRetries opts" by simp
  have f: "fn retryCount = Inl (err retryCount)" "shouldRetry opts (Thrown (err retryCount))"
    using assms(4) lt by simp_all
  have t: "try_block logger fn retryCount = (Inl (Thrown (err retryCount)), [Attempt])"
    using f(1) by (rule try_block_failure [OF assms(1)])
  have step: "withRetry_loop logger opts fn retryCount lastError trace =
      withRetry_loop logger opts fn (retryCount + 1) (Some (Thrown (err retryCount)))
        (trace @ [Attempt, Sleep (retry_delay opts retryCount)])"
    using lt f(2) t assms(2) by (subst withRetry_loop.simps) simp
  have ih: "withRetry_loop logger opts fn (retryCount + 1) (Some (Thrown (err retryCount)))
        (trace @ [Attempt, Sleep (retry_delay opts retryCount)]) =
       (Inl (Some (Thrown (err (maxRetries opts)))),
        (trace @ [Attempt, Sleep (retry_delay opts retryCount)]) @
          concat (map (\<lambda>k. [Attempt, Sleep (retry_delay opts k)])
                    [retryCount + 1..<maxRetries opts]) @ [Attempt])"
    using Suc(1)[of "retryCount + 1"] Suc(2) lt by simp
  have "[retryCount..<maxRetries opts] = retryCount # [retryCount + 1..<maxRetries opts]"
    using lt by (simp add: upt_conv_Cons)
  then show ?case using step ih by simp
qed

lemma retry_delay_mono: "i \<le> j \<Longrightarrow> retry_delay opts i \<le> retry_delay opts j"
  unfolding retry_delay_def
  by (auto intro!: min.mono power_increasing simp: mult_le_mono2 min.coboundedI1)

lemma sorted_delays: "sorted (map (retry_delay opts) [i..<j])"
  by (auto simp: sorted_iff_nth_mono intro: retry_delay_mono)

text \<open>
  The bound that the loop is written for: with the logger that sftp-client.js binds, a
  transfer whose every attempt fails with a retryable error is attempted
  \<open>maxRetries + 1\<close> times, the delays between the attempts never decrease, with
  exponential backoff the delay at retry count \<open>k\<close> is \<open>initialDelay * 2 ^ k\<close> capped at
  \<open>maxDelay\<close>, and the error of the last attempt is thrown.
\<close>

lemma withRetry_loop_bound_with_methods:
  assumes "\<forall>k\<le>maxRetries opts. fn k = Inl (err k) \<and> shouldRetry opts (Thrown (err k))"
  shows "fst (withRetry_loop sftp_client_logger opts fn 0 None []) =
           Inl (Some (Thrown (err (maxRetries opts))))"
    and "attempts (snd (withRetry_loop sftp_client_logger opts fn 0 None [])) = maxRetries opts + 1"
    and "sleeps (snd (withRetry_loop sftp_client_logger opts fn 0 None [])) =
           map (retry_delay opts) [0..<maxRetries opts]"
    and "sorted (sleeps (snd (withRetry_loop sftp_client_logger opts fn 0 None [])))"
    and "exponential opts \<Longrightarrow> retry_delay opts k = min (initialDelay opts * 2 ^ k) (maxDelay opts)"
proof -
  have run: "withRetry_loop sftp_client_logger opts fn 0 None [] =
      (Inl (Some (Thrown (err (maxRetries opts)))),
       concat (map (\<lambda>k. [Attempt, Sleep (retry_delay opts k)]) [0..<maxRetries opts]) @ [Attempt])"
    using withRetry_loop_all_fail [OF sftp_client_logger_methods(1-3) assms, of 0 None "[]"]
    by simp
  show "fst (withRetry_loop sftp_client_logger opts fn 0 None []) =
           Inl (Some (Thrown (err (maxRetries opts))))"
    and "attempts (snd (withRetry_loop sftp_client_logger opts fn 0 None [])) = maxRetries opts + 1"
    and s: "sleeps (snd (withRetry_loop sftp_client_logger opts fn 0 None [])) =
           map (retry_delay opts) [0..<maxRetries opts]"
    unfolding run
    by (simp_all add: attempts_append attempts_rounds attempts_single sleeps_append sleeps_rounds)
  show "sorted (sleeps (snd (withRetry_loop sftp_client_logger opts fn 0 None [])))"
    unfolding s by (rule sorted_delays)
  show "exponential opts \<Longrightarrow> retry_delay opts k = min (initialDelay opts * 2 ^ k) (maxDelay opts)"
    by (simp add: retry_delay_def)
qed

lemma retryable_timeout: "sftp_shouldRetry ''connect ETIMEDOUT''"
  by (simp add: sftp_shouldRetry_def nonRetryableErrors_def toLowerCase_def toLowerCase_char_def
      add32_def startsWith_def)

text \<open>With the options of the upload: six attempts, and the five delays between them.\<close>

lemma withRetry_loop_bound_upload:
  "fst (withRetry_loop sftp_client_logger sftp_retry_options
          (\<lambda>k. Inl ''connect ETIMEDOUT'' :: string + bool) 0 None []) =
     Inl (Some (Thrown ''connect ETIMEDOUT''))"
  "attempts (snd (withRetry_loop sftp_client_logger sftp_retry_options
          (\<lambda>k. Inl ''connect ETIMEDOUT'' :: string + bool) 0 None [])) = 6"
  "sleeps (snd (withRetry_loop sftp_client_logger sftp_retry_options
          (\<lambda>k. Inl ''connect ETIMEDOUT'' :: string + bool) 0 None [])) =
     [3000, 6000, 12000, 24000, 48000]"
proof -
  have h: "\<forall>k\<le>maxRetries sftp_retry_options.
      (\<lambda>k. Inl ''connect ETIMEDOUT'' :: string + bool) k = Inl ((\<lambda>k. ''connect ETIMEDOUT'') k) \<and>
      shouldRetry sftp_retry_options (Thrown ((\<lambda>k. ''connect ETIMEDOUT'') k))"
    using retryable_timeout by (simp add: sftp_retry_options_def)
  have up: "[0..<5] = [0, 1, 2, 3, 4]"
    by (simp add: upt_rec)
  note b = withRetry_loop_bound_with_methods(1-3) [OF h]
  show "fst (withRetry_loop sftp_client_logger sftp_retry_options
          (\<lambda>k. Inl ''connect ETIMEDOUT'' :: string + bool) 0 None []) =
     Inl (Some (Thrown ''connect ETIMEDOUT''))"
    using b(1) by simp
  show "attempts (snd (withRetry_loop sftp_client_logger sftp_retry_options
          (\<lambda>k. Inl ''connect ETIMEDOUT'' :: string + bool) 0 None [])) = 6"
    using b(2) by (simp add: sftp_retry_options_def)
  show "sleeps (snd (withRetry_loop sftp_client_logger sftp_retry_options
          (\<lambda>k. Inl ''connect ETIMEDOUT'' :: string + bool) 0 None [])) =
     [3000, 6000, 12000, 24000, 48000]"
    using b(3) up by (simp add: sftp_retry_options_def retry_delay_def)
qed

subsection \<open>The loop as the module runs it\<close>

text \<open>
  With the module's own binding, the first failure of \<open>fn\<close> ends the run: the call of
  \<open>logger.warn\<close> (of \<open>logger.error\<close> when the error is not to be retried) throws.
\<close>

lemma withRetry_first_failure:
  assumes "fn 0 = Inl e"
  shows "withRetry fn opts =
           (Inl (Some (TypeError
              (if 0 < maxRetries opts \<and> shouldRetry opts (Thrown e)
               then ''logger.warn is not a function''
               else ''logger.error is not a function''))), [Attempt])"
  unfolding withRetry_def using assms
  by (subst withRetry_loop.simps) (simp add: try_block_def retry_util_logger_methods)

text \<open>
  C7 (fails on the code). A transfer whose first attempt fails is attempted once: the
  wrapper, as the module binds its logger, does not sleep and does not attempt the
  transfer again, whatever \<open>maxRetries\<close> is, and throws a \<open>TypeError\<close> in place of the error of
  the transfer.
\<close>

theorem withRetry_stops_at_first_failure:
  assumes "fn 0 = Inl e"
  shows "attempts (snd (withRetry fn opts)) = 1 \<and>
         sleeps (snd (withRetry fn opts)) = [] \<and>
         fst (withRetry fn opts) =
           Inl (Some (TypeError
              (if 0 < maxRetries opts \<and> shouldRetry opts (Thrown e)
               then ''logger.warn is not a function''
               else ''logger.error is not a function'')))"
  using assms unfolding withRetry_first_failure [of fn e opts, OF assms]
  by (simp add: attempts_single)

theorem withRetry_stops_at_first_failure_witness:
  "maxRetries sftp_retry_options = 5 \<and>
   attempts (snd (withRetry (\<lambda>k. Inl ''connect ETIMEDOUT'' :: string + bool) sftp_retry_options)) = 1 \<and>
   sleeps (snd (withRetry (\<lambda>k. Inl ''connect ETIMEDOUT'' :: string + bool) sftp_retry_options)) = [] \<and>
   fst (withRetry (\<lambda>k. Inl ''connect ETIMEDOUT'' :: string + bool) sftp_retry_options) =
     Inl (Some (TypeError ''logger.warn is not a function''))"
proof -
  have h: "(\<lambda>k. Inl ''connect ETIMEDOUT'' :: string + bool) 0 = Inl ''connect ETIMEDOUT''"
    by simp
  have r: "0 < maxRetries sftp_retry_options \<and>
           shouldRetry sftp_retry_options (Thrown ''connect ETIMEDOUT'')"
    using retryable_timeout by (simp add: sftp_retry_options_def)
  show ?thesis
    using withRetry_stops_at_first_failure
      [of "\<lambda>k. Inl ''connect ETIMEDOUT'' :: string + bool" "''connect ETIMEDOUT''"
          sftp_retry_options] h r
    by (simp add: sftp_retry_options_def)
qed

section \<open>The unit roster\<close>

lemma takeWhile_neq_append:
  "x \<notin> set ys \<Longrightarrow> takeWhile (\<lambda>y. y \<noteq> x) (ys @ zs) = ys @ takeWhile (\<lambda>y. y \<noteq> x) zs"
  by (induction ys) auto

lemma new_Set_snoc:
  "new_Set (xs @ [x]) = (if x \<in> set (new_Set xs) then new_Set xs else new_Set xs @ [x])"
  by (simp add: new_Set_def)

lemma set_new_Set: "set (new_Set xs) = set xs"
  by (induction xs rule: rev_induct) (auto simp: new_Set_snoc, simp add: new_Set_def)

lemma distinct_new_Set: "distinct (new_Set xs)"
  by (induction xs rule: rev_induct) (auto simp: new_Set_snoc, simp add: new_Set_def)

lemma first_index_new_Set:
  "n \<in> set xs \<Longrightarrow> first_index n (new_Set xs) = card (set (takeWhile (\<lambda>y. y \<noteq> n) xs))"
proof (induction xs rule: rev_induct)
  case Nil
  then show ?case by simp
next
  case (snoc x xs)
  show ?case
  proof (cases "n \<in> set xs")
    case True
    then have "n \<in> set (new_Set xs)" by (simp add: set_new_Set)
    then have "first_index n (new_Set (xs @ [x])) = first_index n (new_Set xs)"
      by (auto simp: new_Set_snoc first_index_def takeWhile_append1)
    moreover have "takeWhile (\<lambda>y. y \<noteq> n) (xs @ [x]) = takeWhile (\<lambda>y. y \<noteq> n) xs"
      using True by (auto simp: takeWhile_append1)
    ultimately show ?thesis using snoc.IH True by simp
  next
    case False
    with snoc.prems have nx: "n = x" by simp
    have notin: "x \<notin> set (new_Set xs)" using False nx by (simp add: set_new_Set)
    then have "first_index n (new_Set (xs @ [x])) = length (new_Set xs)"
      using nx by (simp add: new_Set_snoc first_index_def takeWhile_neq_append)
    also have "\<dots> = card (set xs)"
      using distinct_card [OF distinct_new_Set, of xs] by (simp add: set_new_Set)
    also have "takeWhile (\<lambda>y. y \<noteq> n) (xs @ [x]) = xs"
      using False nx by (simp add: takeWhile_neq_append)
    ultimately show ?thesis by simp
  qed
qed

lemma set_activityUnits:
  "set (activityUnits activity) = {a_Name a | a. a \<in> set activity \<and> a_Type a = Some ''Unit''}"
  by (auto simp: activityUnits_def)

lemma set_dispatchUnits:
  "set (dispatchUnits call) =
     {d_Name d | d ds. call_Dispatches call = Some ds \<and> d \<in> set ds \<and> d_Type d = Some ''Unit'' \<and>
        truthy (d_Name d)}"
  by (cases "call_Dispatches call") (auto simp: dispatchUnits_def)

text \<open>
  C5. The roster holds each unit name once; its names are those of the activity entries of
  type \<open>Unit\<close> and those of the dispatch entries of type \<open>Unit\<close> with a name; and a name stands
  at the position given by its first occurrence in the activity names followed by the
  dispatch names: as many names come before it in the roster as there are different names
  before that first occurrence.
\<close>

theorem uniqueUnits_first_occurrence:
  "distinct (uniqueUnits call activity) \<and>
   set (uniqueUnits call activity) = set (activityUnits activity) \<union> set (dispatchUnits call) \<and>
   (\<forall>n \<in> set (activityUnits activity @ dispatchUnits call).
      first_index n (uniqueUnits call activity) =
        card (set (takeWhile (\<lambda>y. y \<noteq> n) (activityUnits activity @ dispatchUnits call)))) \<and>
   set (activityUnits activity) = {a_Name a | a. a \<in> set activity \<and> a_Type a = Some ''Unit''} \<and>
   set (dispatchUnits call) =
     {d_Name d | d ds. call_Dispatches call = Some ds \<and> d \<in> set ds \<and> d_Type d = Some ''Unit'' \<and>
        truthy (d_Name d)}"
  unfolding uniqueUnits_def allUnits_def
  using set_activityUnits set_dispatchUnits
  by (simp add: distinct_new_Set set_new_Set first_index_new_Set)


lemma ex_units:
  "activityUnits [unit_status ''STN1'' 5 ''T1'', unit_status ''E7'' 6 ''T2''] = [Some ''STN1'', Some ''E7'']"
  "dispatchUnits (empty_call\<lparr>call_Dispatches := Some [unit_dispatch ''STN1'', unit_dispatch ''M2'']\<rparr>)
     = [Some ''STN1'', Some ''M2'']"
  by (simp_all add: activityUnits_def dispatchUnits_def unit_status_def unit_dispatch_def
      empty_dispatch_def empty_call_def truthy_def)

theorem uniqueUnits_first_occurrence_witness:
  "distinct (uniqueUnits (empty_call\<lparr>call_Dispatches := Some [unit_dispatch ''STN1'', unit_dispatch ''M2'']\<rparr>)
       [unit_status ''STN1'' 5 ''T1'', unit_status ''E7'' 6 ''T2'']) \<and>
   set (uniqueUnits (empty_call\<lparr>call_Dispatches := Some [unit_dispatch ''STN1'', unit_dispatch ''M2'']\<rparr>)
       [unit_status ''STN1'' 5 ''T1'', unit_status ''E7'' 6 ''T2'']) =
     {Some ''STN1'', Some ''E7'', Some ''M2''} \<and>
   first_index (Some ''STN1'')
     (uniqueUnits (empty_call\<lparr>call_Dispatches := Some [unit_dispatch ''STN1'', unit_dispatch ''M2'']\<rparr>)
       [unit_status ''STN1'' 5 ''T1'', unit_status ''E7'' 6 ''T2'']) = 0 \<and>
   first_index (Some ''M2'')
     (uniqueUnits (empty_call\<lparr>call_Dispatches := Some [unit_dispatch ''STN1'', unit_dispatch ''M2'']\<rparr>)
       [unit_status ''STN1'' 5 ''T1'', unit_status ''E7'' 6 ''T2'']) = 2"
proof -
  let ?c = "empty_call\<lparr>call_Dispatches := Some [unit_dispatch ''STN1'', unit_dispatch ''M2'']\<rparr>"
  let ?a = "[unit_status ''STN1'' 5 ''T1'', unit_status ''E7'' 6 ''T2'']"
  note th = uniqueUnits_first_occurrence [of ?c ?a, unfolded ex_units]
  have d: "distinct (uniqueUnits ?c ?a)"
    using th by (rule conjunct1)
  have s: "set (uniqueUnits ?c ?a) = {Some ''STN1'', Some ''E7'', Some ''M2''}"
    using th [THEN conjunct2, THEN conjunct1] by auto
  note pos = th [THEN conjunct2, THEN conjunct2, THEN conjunct1]
  have p1: "first_index (Some ''STN1'') (uniqueUnits ?c ?a) = 0"
    using pos [THEN bspec, of "Some ''STN1''"] by simp
  have seen: "{Some ''STN1'', Some ''E7'', Some ''STN1''} = {Some ''STN1'', Some ''E7''}"
    by auto
  have p2: "first_index (Some ''M2'') (uniqueUnits ?c ?a) = 2"
    using pos [THEN bspec, of "Some ''M2''"] by (simp add: seen)
  show ?thesis
    using d s p1 p2 by (intro conjI)
qed

section \<open>The unit field of the single-unit variants\<close>

lemma unitName_from_call [simp]: "unitName (from_call c st) = unitName st"
  by (simp add: from_call_def Let_def)

lemma unitName_from_Activity [simp]: "unitName (from_Activity x st) = unitName st"
  by (simp add: from_Activity_def Let_def split: option.splits)

lemma filter_Cons_head: "filter P xs = y # ys \<Longrightarrow> P y \<and> y \<in> set xs"
  by (metis filter_eq_ConsD in_set_conv_decomp)

lemma find_Some_holds: "find P xs = Some y \<Longrightarrow> P y \<and> y \<in> set xs"
  by (auto simp: find_Some_iff)

lemma from_UnitsCsv_name:
  assumes "unitName (from_UnitsCsv c initial_unit_state) \<noteq> []"
  shows "validUnitName (unitName (from_UnitsCsv c initial_unit_state)) \<and>
         unitName (from_UnitsCsv c initial_unit_state) \<in> unit_candidates c x"
  using assms
  by (auto simp: from_UnitsCsv_def Let_def initial_unit_state_def unit_candidates_def
      split: if_splits option.splits dest!: find_Some_holds)

lemma from_UnitsCsv_none:
  assumes "\<forall>n \<in> unit_candidates c x. \<not> validUnitName n"
  shows "unitName (from_UnitsCsv c initial_unit_state) = []"
  using assms
  by (auto simp: from_UnitsCsv_def Let_def initial_unit_state_def unit_candidates_def
      split: if_splits option.splits dest!: find_Some_holds)

lemma validDispatch_name:
  "validDispatch d \<Longrightarrow> \<exists>n. d_Name d = Some n \<and> n \<noteq> [] \<and> validUnitName n \<and> or_lit (d_Name d) [] = n"
  by (cases "d_Name d") (auto simp: validDispatch_def truthy_def or_lit_def)

lemma from_Dispatches_name:
  assumes "unitName st = []" and "unitName (from_Dispatches x st) \<noteq> []"
  shows "validUnitName (unitName (from_Dispatches x st)) \<and>
         unitName (from_Dispatches x st) \<in> unit_candidates c x"
proof -
  from assms obtain ds d rest where ds: "Dispatches x = Some ds"
    and f: "filter validDispatch ds = d # rest"
    by (auto simp: from_Dispatches_def split: option.splits list.splits)
  have nm: "unitName (from_Dispatches x st) = or_lit (d_Name d) []"
    using assms(1) ds f by (simp add: from_Dispatches_def)
  from filter_Cons_head [OF f] have vd: "validDispatch d" and mem: "d \<in> set ds" by simp_all
  from validDispatch_name [OF vd] obtain n where n: "d_Name d = Some n" "validUnitName n"
    "or_lit (d_Name d) [] = n" by blast
  have "d_Type d = Some ''Unit''" using vd by (simp add: validDispatch_def)
  then have "n \<in> unit_candidates c x"
    using ds mem n(1) by (auto simp: unit_candidates_def)
  then show ?thesis using nm n by simp
qed

lemma from_Dispatches_none:
  assumes "unitName st = []" and "\<forall>n \<in> unit_candidates c x. \<not> validUnitName n"
  shows "unitName (from_Dispatches x st) = []"
proof (rule ccontr)
  assume "unitName (from_Dispatches x st) \<noteq> []"
  from from_Dispatches_name [OF assms(1) this, of c] assms(2) show False by blast
qed

lemma from_Dispatches_keep: "unitName st \<noteq> [] \<Longrightarrow> from_Dispatches x st = st"
  by (simp add: from_Dispatches_def)

lemma unitName_unit_and_times:
  "unitName (unit_and_times c x) = unitName (from_Dispatches x (from_UnitsCsv c initial_unit_state))"
  by (simp add: unit_and_times_def)

lemma selected_unit_valid:
  assumes "unitName (unit_and_times c x) \<noteq> []"
  shows "validUnitName (unitName (unit_and_times c x)) \<and> unitName (unit_and_times c x) \<in> unit_candidates c x"
proof (cases "unitName (from_UnitsCsv c initial_unit_state) = []")
  case True
  then show ?thesis
    using assms from_Dispatches_name [OF True, of x c] by (simp add: unitName_unit_and_times)
next
  case False
  then show ?thesis
    using from_UnitsCsv_name [OF False, of x] by (simp add: unitName_unit_and_times from_Dispatches_keep)
qed

lemma no_valid_candidate:
  assumes "\<forall>n \<in> unit_candidates c x. \<not> validUnitName n"
  shows "unitName (unit_and_times c x) = []"
  using from_Dispatches_none [OF from_UnitsCsv_none [OF assms] assms]
  by (simp add: unitName_unit_and_times)

lemma xml_unit_line:
  "generateXML_lines eng c x ! 10 = element ''EmsUnitCallSign'' (unitName (unit_and_times c x))"
  by (simp add: generateXML_lines_def Let_def split: prod.splits)

lemma sheet_unit_column:
  "sheetCallRow_values ts c x ! 11 = unitName (unit_and_times c x)"
  by (simp add: sheetCallRow_values_def Let_def split: prod.splits)

text \<open>
  C10. In the XML generator and the sheet writer for a single unit, a name reaches the unit
  field (the \<open>EmsUnitCallSign\<close> element, the Unit Name column) only if it has at most 9
  characters, all of them ASCII letters or digits, and it is one of the candidates; when
  every candidate fails this test the unit field is empty.
\<close>

theorem unit_field_alphanumeric:
  "(unitName (unit_and_times c x) \<noteq> [] \<longrightarrow>
      length (unitName (unit_and_times c x)) \<le> 9 \<and>
      list_all isAlnum (unitName (unit_and_times c x)) \<and>
      unitName (unit_and_times c x) \<in> unit_candidates c x) \<and>
   ((\<forall>n \<in> unit_candidates c x. \<not> (length n \<le> 9 \<and> n \<noteq> [] \<and> list_all isAlnum n)) \<longrightarrow>
      unitName (unit_and_times c x) = []) \<and>
   generateXML_lines eng c x ! 10 = element ''EmsUnitCallSign'' (unitName (unit_and_times c x)) \<and>
   sheetCallRow_values ts c x ! 11 = unitName (unit_and_times c x)"
proof -
  have a: "unitName (unit_and_times c x) \<noteq> [] \<longrightarrow>
      length (unitName (unit_and_times c x)) \<le> 9 \<and>
      list_all isAlnum (unitName (unit_and_times c x)) \<and>
      unitName (unit_and_times c x) \<in> unit_candidates c x"
    using selected_unit_valid [of c x] by (simp add: validUnitName_def alphanumeric_def)
  have b: "(\<forall>n \<in> unit_candidates c x. \<not> (length n \<le> 9 \<and> n \<noteq> [] \<and> list_all isAlnum n)) \<longrightarrow>
      unitName (unit_and_times c x) = []"
    using no_valid_candidate [of c x] by (simp add: validUnitName_def alphanumeric_def)
  show ?thesis
    using a b xml_unit_line sheet_unit_column by blast
qed


theorem unit_field_alphanumeric_witness:
  "unitName (unit_and_times (empty_call\<lparr>UnitsCsv := Some ''Engine-1, STN1 ,Medic 12''\<rparr>) empty_extra) = ''STN1'' \<and>
   list_all isAlnum ''STN1'' \<and>
   unitName (unit_and_times (empty_call\<lparr>UnitsCsv := Some ''Engine-1,Medic 12''\<rparr>)
      (empty_extra\<lparr>Dispatches := Some [unit_dispatch ''Ladder-22'']\<rparr>)) = [] \<and>
   generateXML_lines plain_engine (empty_call\<lparr>UnitsCsv := Some ''Engine-1,Medic 12''\<rparr>)
      (empty_extra\<lparr>Dispatches := Some [unit_dispatch ''Ladder-22'']\<rparr>) ! 10 =
     ''  <EmsUnitCallSign></EmsUnitCallSign>'' \<and>
   sheetCallRow_values ''2025-05-06T11:51:40.984Z'' (empty_call\<lparr>UnitsCsv := Some ''Engine-1,Medic 12''\<rparr>)
      (empty_extra\<lparr>Dispatches := Some [unit_dispatch ''Ladder-22'']\<rparr>) ! 11 = []"
proof -
  let ?c0 = "empty_call\<lparr>UnitsCsv := Some ''Engine-1, STN1 ,Medic 12''\<rparr>"
  let ?c1 = "empty_call\<lparr>UnitsCsv := Some ''Engine-1,Medic 12''\<rparr>"
  let ?x1 = "empty_extra\<lparr>Dispatches := Some [unit_dispatch ''Ladder-22'']\<rparr>"
  have sel: "unitName (unit_and_times ?c0 empty_extra) = ''STN1''"
    by code_simp
  have ok: "list_all isAlnum ''STN1''"
    using unit_field_alphanumeric [of ?c0 empty_extra] sel by simp
  have cand: "unit_candidates ?c1 ?x1 = {''Engine-1'', ''Medic 12'', ''Ladder-22''}"
    by (auto simp: unit_candidates_def empty_call_def empty_extra_def unit_dispatch_def
        empty_dispatch_def truthy_def or_lit_def js_trim_def isWhiteSpace_def)
  have bad: "\<forall>n \<in> unit_candidates ?c1 ?x1. \<not> (length n \<le> 9 \<and> n \<noteq> [] \<and> list_all isAlnum n)"
    unfolding cand by (simp add: isAlnum_def)
  note th = unit_field_alphanumeric [of ?c1 ?x1 plain_engine "''2025-05-06T11:51:40.984Z''"]
  have none: "unitName (unit_and_times ?c1 ?x1) = []"
    using th bad by blast
  have xml: "generateXML_lines plain_engine ?c1 ?x1 ! 10 = ''  <EmsUnitCallSign></EmsUnitCallSign>''"
    using th none by (simp add: element_def)
  have row: "sheetCallRow_values ''2025-05-06T11:51:40.984Z'' ?c1 ?x1 ! 11 = []"
    using th none by simp
  show ?thesis
    using sel ok none xml row by (intro conjI)
qed

section \<open>Evaluation of the derivations\<close>

lemmas times_defs =
  final_generateXML_times_def final_logCallData_times_def activityEvent_def event_Timestamp_def
  js_or_def truthy_def or_lit_def Let_def


lemmas unit_defs =
  unit_and_times_def from_call_def from_Activity_def from_Dispatches_def from_UnitsCsv_def
  initial_unit_state_def validDispatch_def validUnitName_def alphanumeric_def isAlnum_def
  validUnitActivity_def hasBackInServiceKeyword_def fill_def event_Timestamp_def truthy_def
  or_lit_def Let_def

section \<open>The response classification\<close>

























lemmas ascii_lower_eval = ascii_lower_def add32_def

text \<open>The case mappings on the capitals, as a check of \<open>add32\<close>.\<close>

lemma ascii_lower_capitals:
  "map ascii_lower ''ABCDEFGHIJKLMNOPQRSTUVWXYZ'' = ''abcdefghijklmnopqrstuvwxyz''"
  by (simp add: ascii_lower_eval)

lemma toLowerCase_capitals:
  "toLowerCase ''ABCDEFGHIJKLMNOPQRSTUVWXYZ'' = ''abcdefghijklmnopqrstuvwxyz''"
  by (simp add: toLowerCase_def toLowerCase_char_def add32_def)

lemma toLowerCase_latin1:
  "toLowerCase [CHR 0xC0, CHR 0xD6, CHR 0xD7, CHR 0xD8, CHR 0xDE, CHR 0xDF] =
     [CHR 0xE0, CHR 0xF6, CHR 0xD7, CHR 0xF8, CHR 0xFE, CHR 0xDF]"
  by (simp add: toLowerCase_def toLowerCase_char_def add32_def)

lemmas keyword_eval =
  keyword_test.simps keyword_at_def non_opt_def ci_prefix_def line_terminator_def ascii_lower_eval

lemma no_keyword_person_down: "\<not> keyword_test ''PERSON DOWN''"
  by (simp add: keyword_eval)




section \<open>The cleared time\<close>

lemma first_time_event:
  "first_time activity s t \<longleftrightarrow>
     (t \<noteq> [] \<and> event_Timestamp (activityEvent activity s) = Some t)"
proof
  assume "first_time activity s t"
  then obtain i where t: "t \<noteq> []" and i: "i < length activity"
    "a_StatusId (activity ! i) = Some s" "\<forall>j < i. a_StatusId (activity ! j) \<noteq> Some s"
    "a_Timestamp (activity ! i) = Some t"
    by (auto simp: first_time_def)
  have "find (\<lambda>e. a_StatusId e = Some s) activity = Some (activity ! i)"
    unfolding find_Some_iff using i by blast
  then show "t \<noteq> [] \<and> event_Timestamp (activityEvent activity s) = Some t"
    using t i(4) by (simp add: activityEvent_def event_Timestamp_def)
next
  assume r: "t \<noteq> [] \<and> event_Timestamp (activityEvent activity s) = Some t"
  then obtain e where e: "find (\<lambda>e. a_StatusId e = Some s) activity = Some e" "a_Timestamp e = Some t"
    by (auto simp: activityEvent_def event_Timestamp_def split: option.splits)
  from e(1) obtain i where "i < length activity" "a_StatusId (activity ! i) = Some s"
    "e = activity ! i" "\<forall>j < i. a_StatusId (activity ! j) \<noteq> Some s"
    unfolding find_Some_iff by blast
  then show "first_time activity s t"
    using r e(2) by (auto simp: first_time_def)
qed

lemma first_time_or_lit:
  "first_time activity s t \<Longrightarrow> truthy (event_Timestamp (activityEvent activity s)) \<and>
     or_lit (event_Timestamp (activityEvent activity s)) d = t"
  by (simp add: first_time_event truthy_def or_lit_def)

lemma no_time_falsy: "no_time activity s \<longleftrightarrow> \<not> truthy (event_Timestamp (activityEvent activity s))"
proof (cases "event_Timestamp (activityEvent activity s)")
  case None
  then show ?thesis by (simp add: no_time_def first_time_event truthy_def)
next
  case (Some t)
  then show ?thesis by (auto simp: no_time_def first_time_event truthy_def)
qed

lemma js_or_first: "truthy a \<Longrightarrow> js_or a b = a"
  and js_or_second: "\<not> truthy a \<Longrightarrow> js_or a b = b"
  by (simp_all add: js_or_def)

lemma or_lit_falsy: "\<not> truthy a \<Longrightarrow> or_lit a [] = []"
  by (auto simp: truthy_def or_lit_def split: option.splits)

lemma no_status_no_event:
  "\<forall>e \<in> set activity. a_StatusId e \<noteq> Some s \<Longrightarrow> activityEvent activity s = None"
  by (simp add: activityEvent_def find_None_iff)

lemma cleared_xml:
  "cleared (final_generateXML_times call activity) =
     or_lit (js_or (js_or (js_or (event_Timestamp (activityEvent activity 8))
                                 (event_Timestamp (activityEvent activity 9)))
                          (event_Timestamp (activityEvent activity 2))) (ClosedOn call)) []"
  by (simp add: final_generateXML_times_def Let_def)

text \<open>
  C4 (as amended). In the XML derivation the cleared time is the time of the first entry
  with status 8; without one, that of the first entry with status 9; without one, that of
  the first entry with status 2; without one, the \<open>ClosedOn\<close> of the call, else empty. Status
  0 is not consulted. With no entry of status 8, 9 or 2, in the XML and in the sheet
  derivation, cleared is \<open>ClosedOn\<close> (or empty) and back in service is empty.
\<close>

theorem cleared_cascade:
  "(first_time activity 8 t \<longrightarrow> cleared (final_generateXML_times call activity) = t) \<and>
   (no_time activity 8 \<and> first_time activity 9 t \<longrightarrow>
      cleared (final_generateXML_times call activity) = t) \<and>
   (no_time activity 8 \<and> no_time activity 9 \<and> first_time activity 2 t \<longrightarrow>
      cleared (final_generateXML_times call activity) = t) \<and>
   (no_time activity 8 \<and> no_time activity 9 \<and> no_time activity 2 \<longrightarrow>
      cleared (final_generateXML_times call activity) = or_lit (ClosedOn call) []) \<and>
   ((\<forall>e \<in> set activity. a_StatusId e \<noteq> Some 8 \<and> a_StatusId e \<noteq> Some 9 \<and> a_StatusId e \<noteq> Some 2) \<longrightarrow>
      cleared (final_generateXML_times call activity) = or_lit (ClosedOn call) [] \<and>
      backInService (final_generateXML_times call activity) = [] \<and>
      cleared (final_logCallData_times call activity) = or_lit (ClosedOn call) [] \<and>
      backInService (final_logCallData_times call activity) = [])"
proof (intro conjI impI)
  assume "first_time activity 8 t"
  then show "cleared (final_generateXML_times call activity) = t"
    using first_time_or_lit [of activity 8 t "[]"]
    by (simp add: cleared_xml js_or_first js_or_def)
next
  assume "no_time activity 8 \<and> first_time activity 9 t"
  then show "cleared (final_generateXML_times call activity) = t"
    using first_time_or_lit [of activity 9 t "[]"]
    by (simp add: cleared_xml no_time_falsy js_or_def)
next
  assume "no_time activity 8 \<and> no_time activity 9 \<and> first_time activity 2 t"
  then show "cleared (final_generateXML_times call activity) = t"
    using first_time_or_lit [of activity 2 t "[]"]
    by (simp add: cleared_xml no_time_falsy js_or_def)
next
  assume "no_time activity 8 \<and> no_time activity 9 \<and> no_time activity 2"
  then show "cleared (final_generateXML_times call activity) = or_lit (ClosedOn call) []"
    by (simp add: cleared_xml no_time_falsy js_or_def)
next
  assume none: "\<forall>e \<in> set activity. a_StatusId e \<noteq> Some 8 \<and> a_StatusId e \<noteq> Some 9 \<and> a_StatusId e \<noteq> Some 2"
  then have ev: "activityEvent activity 8 = None" "activityEvent activity 9 = None"
    "activityEvent activity 2 = None"
    by (simp_all add: no_status_no_event)
  show "cleared (final_generateXML_times call activity) = or_lit (ClosedOn call) []"
    by (simp add: cleared_xml ev event_Timestamp_def js_or_def truthy_def)
  show "backInService (final_generateXML_times call activity) = []"
    by (simp add: final_generateXML_times_def Let_def ev event_Timestamp_def js_or_def truthy_def
        or_lit_def)
  show "cleared (final_logCallData_times call activity) = or_lit (ClosedOn call) []"
    by (simp add: final_logCallData_times_def Let_def ev event_Timestamp_def js_or_def truthy_def)
  show "backInService (final_logCallData_times call activity) = []"
    by (simp add: final_logCallData_times_def Let_def ev event_Timestamp_def js_or_def truthy_def
        or_lit_def)
qed

text \<open>
  The claim as stated fails twice: an entry with status 0 does not give the cleared time,
  and an entry with status 9 gives it (and the back in service time) before \<open>ClosedOn\<close>.
\<close>

theorem cleared_cascade_counterexample:
  "cleared (final_generateXML_times (empty_call\<lparr>ClosedOn := Some ''2025-05-05T20:00:00Z''\<rparr>)
      [unit_status ''E1'' 0 ''T0'']) = ''2025-05-05T20:00:00Z'' \<and>
   cleared (final_generateXML_times (empty_call\<lparr>ClosedOn := Some ''2025-05-05T20:00:00Z''\<rparr>)
      [unit_status ''E1'' 0 ''T0'']) \<noteq> ''T0'' \<and>
   cleared (final_generateXML_times (empty_call\<lparr>ClosedOn := Some ''2025-05-05T20:00:00Z''\<rparr>)
      [unit_status ''E1'' 9 ''T9'']) = ''T9'' \<and>
   backInService (final_generateXML_times (empty_call\<lparr>ClosedOn := Some ''2025-05-05T20:00:00Z''\<rparr>)
      [unit_status ''E1'' 9 ''T9'']) = ''T9''"
  by (simp add: times_defs unit_status_def empty_call_def)

theorem cleared_cascade_witness:
  "cleared (final_generateXML_times empty_call
      [unit_status ''E1'' 2 ''T2'', unit_status ''E1'' 8 ''T8'', unit_status ''E1'' 8 ''T8b'']) = ''T8'' \<and>
   cleared (final_generateXML_times empty_call
      [unit_status ''E1'' 2 ''T2'', unit_status ''E1'' 9 ''T9'']) = ''T9'' \<and>
   cleared (final_generateXML_times empty_call
      [unit_status ''E1'' 5 ''T5'', unit_status ''E1'' 2 ''T2'']) = ''T2'' \<and>
   cleared (final_generateXML_times (empty_call\<lparr>ClosedOn := Some ''2025-05-05T20:00:00Z''\<rparr>)
      [unit_status ''E1'' 8 []]) = ''2025-05-05T20:00:00Z'' \<and>
   cleared (final_generateXML_times (empty_call\<lparr>ClosedOn := Some ''2025-05-05T20:00:00Z''\<rparr>)
      [unit_status ''E1'' 5 ''T5'', unit_status ''E1'' 6 ''T6'']) = ''2025-05-05T20:00:00Z'' \<and>
   backInService (final_generateXML_times (empty_call\<lparr>ClosedOn := Some ''2025-05-05T20:00:00Z''\<rparr>)
      [unit_status ''E1'' 5 ''T5'', unit_status ''E1'' 6 ''T6'']) = [] \<and>
   cleared (final_logCallData_times (empty_call\<lparr>ClosedOn := Some ''2025-05-05T20:00:00Z''\<rparr>)
      [unit_status ''E1'' 5 ''T5'', unit_status ''E1'' 6 ''T6'']) = ''2025-05-05T20:00:00Z'' \<and>
   backInService (final_logCallData_times (empty_call\<lparr>ClosedOn := Some ''2025-05-05T20:00:00Z''\<rparr>)
      [unit_status ''E1'' 5 ''T5'', unit_status ''E1'' 6 ''T6'']) = []"
proof -
  let ?a8 = "[unit_status ''E1'' 2 ''T2'', unit_status ''E1'' 8 ''T8'', unit_status ''E1'' 8 ''T8b'']"
  let ?a9 = "[unit_status ''E1'' 2 ''T2'', unit_status ''E1'' 9 ''T9'']"
  let ?a2 = "[unit_status ''E1'' 5 ''T5'', unit_status ''E1'' 2 ''T2'']"
  let ?a0 = "[unit_status ''E1'' 5 ''T5'', unit_status ''E1'' 6 ''T6'']"
  let ?c = "empty_call\<lparr>ClosedOn := Some ''2025-05-05T20:00:00Z''\<rparr>"
  have ev: "\<And>a s. event_Timestamp (activityEvent a s) =
      (case find (\<lambda>e. a_StatusId e = Some s) a of None \<Rightarrow> None | Some e \<Rightarrow> a_Timestamp e)"
    by (simp add: activityEvent_def event_Timestamp_def)
  have h8: "first_time ?a8 8 ''T8''"
    by (simp add: first_time_event ev unit_status_def)
  have h9: "no_time ?a9 8 \<and> first_time ?a9 9 ''T9''"
    by (simp add: first_time_event no_time_falsy ev unit_status_def truthy_def)
  have h2: "no_time ?a2 8 \<and> no_time ?a2 9 \<and> first_time ?a2 2 ''T2''"
    by (simp add: first_time_event no_time_falsy ev unit_status_def truthy_def)
  have h0: "\<forall>e \<in> set ?a0. a_StatusId e \<noteq> Some 8 \<and> a_StatusId e \<noteq> Some 9 \<and> a_StatusId e \<noteq> Some 2"
    by (simp add: unit_status_def)
  have r8: "cleared (final_generateXML_times empty_call ?a8) = ''T8''"
    using cleared_cascade [of ?a8 "''T8''" empty_call] h8 by blast
  have r9: "cleared (final_generateXML_times empty_call ?a9) = ''T9''"
    using cleared_cascade [of ?a9 "''T9''" empty_call] h9 by blast
  have r2: "cleared (final_generateXML_times empty_call ?a2) = ''T2''"
    using cleared_cascade [of ?a2 "''T2''" empty_call] h2 by blast
  have closed: "or_lit (ClosedOn ?c) [] = ''2025-05-05T20:00:00Z''"
    by (simp add: or_lit_def empty_call_def)
  have he: "no_time [unit_status ''E1'' 8 []] 8 \<and> no_time [unit_status ''E1'' 8 []] 9 \<and>
      no_time [unit_status ''E1'' 8 []] 2"
    by (simp add: no_time_falsy ev unit_status_def truthy_def)
  have re: "cleared (final_generateXML_times ?c [unit_status ''E1'' 8 []]) = ''2025-05-05T20:00:00Z''"
    using cleared_cascade [of "[unit_status ''E1'' 8 []]" _ ?c] he closed by simp
  have r0: "cleared (final_generateXML_times ?c ?a0) = ''2025-05-05T20:00:00Z''"
    "backInService (final_generateXML_times ?c ?a0) = []"
    "cleared (final_logCallData_times ?c ?a0) = ''2025-05-05T20:00:00Z''"
    "backInService (final_logCallData_times ?c ?a0) = []"
    using cleared_cascade [of ?a0 _ ?c] h0 closed by simp_all
  show ?thesis
    using r8 r9 r2 re r0 by (intro conjI)
qed

section \<open>The response mode in the two sinks\<close>

lemma stripTags_person_down: "stripTags (Some ''PERSON DOWN'') = ''PERSON DOWN''"
  by (simp add: stripTags_def or_lit_def js_trim_def isWhiteSpace_def)

lemma keyword_routine_transport: "keyword_test ''Routine transport''"
  by (simp add: keyword_eval)

lemma priorityMap_1560: "obj_get priorityMap ''1560'' = Own ''390''"
  and priorityMap_1559: "obj_get priorityMap ''1559'' = Own ''395''"
  and sheet_map_1560: "obj_get sheet_responseModeMap ''1560'' = Own ''390''"
  by (simp_all add: obj_get_def priorityMap_def sheet_responseModeMap_def)

text \<open>
  C1 (fails on the code). For the emergency priority 1560 the batch script writes 390 into
  \<open>ResponseModeToScene\<close> and 395 into the Response Mode column, and for 1559 the reverse;
  for a routine transport with priority 1560 the XML generator writes 395 and the sheet
  writer the label of 390.
\<close>

theorem response_mode_sinks_disagree:
  "final_generateXML_responseMode
      (empty_call\<lparr>Nature := Some ''PERSON DOWN'', Priority := Prim (JStr ''1560'')\<rparr>) = Text ''390'' \<and>
   final_logCallData_responseMode
      (empty_call\<lparr>Nature := Some ''PERSON DOWN'', Priority := Prim (JStr ''1560'')\<rparr>) = ''395'' \<and>
   final_generateXML_responseMode
      (empty_call\<lparr>Nature := Some ''PERSON DOWN'', Priority := Prim (JStr ''1559'')\<rparr>) = Text ''395'' \<and>
   final_logCallData_responseMode
      (empty_call\<lparr>Nature := Some ''PERSON DOWN'', Priority := Prim (JStr ''1559'')\<rparr>) = ''390'' \<and>
   generateXML_responseMode
      (empty_call\<lparr>Nature := Some ''Routine transport'', Priority := Prim (JStr ''1560'')\<rparr>) = Text ''395'' \<and>
   sheetCallRow_responseModeText
      (empty_call\<lparr>Nature := Some ''Routine transport'', Priority := Prim (JStr ''1560'')\<rparr>) =
     ''Lights & Sirens''"
  by (simp add: final_generateXML_responseMode_def final_logCallData_responseMode_def
      generateXML_responseMode_def sheetCallRow_responseModeText_def sheetCallRow_responseMode_def
      sheet_priority_def empty_call_def prop_or_def truthy_def or_lit_def Let_def
      no_keyword_person_down stripTags_person_down keyword_routine_transport
      priorityMap_1560 priorityMap_1559 sheet_map_1560)

section \<open>The cascade example\<close>

text \<open>
  C3 (fails on the code). For the activity of the example the XML derivation of the batch
  script gives en route \<open>T1\<close>, on scene \<open>T2\<close>, at patient \<open>T2\<close>, cleared \<open>T3\<close> and back in service
  \<open>T3\<close>; its sheet derivation gives the same except an empty back in service; the
  single-unit generator gives en route and on scene only.
\<close>

theorem cascade_example_times:
  "final_generateXML_times empty_call
      [unit_status ''E1'' 5 ''T1'', unit_status ''E1'' 6 ''T2'', unit_status ''E1'' 8 ''T3''] =
     \<lparr> enRoute = ''T1'', onScene = ''T2'', atPatient = ''T2'', cleared = ''T3'',
       backInService = ''T3'' \<rparr> \<and>
   final_logCallData_times empty_call
      [unit_status ''E1'' 5 ''T1'', unit_status ''E1'' 6 ''T2'', unit_status ''E1'' 8 ''T3''] =
     \<lparr> enRoute = ''T1'', onScene = ''T2'', atPatient = ''T2'', cleared = ''T3'',
       backInService = [] \<rparr> \<and>
   unit_and_times empty_call
      (empty_extra\<lparr> Dispatches := Some [unit_dispatch ''E1''],
         Activity := Some [unit_status ''E1'' 5 ''T1'', unit_status ''E1'' 6 ''T2'',
                           unit_status ''E1'' 8 ''T3''] \<rparr>) =
     \<lparr> unitName = ''E1'', unitLocation = [], unitEnRouteTime = ''T1'',
       unitArrivedOnSceneTime = ''T2'', unitAtPatientTime = [], unitClearedTime = [],
       unitBackInServiceTime = [] \<rparr>"
proof -
  have xml: "final_generateXML_times empty_call
      [unit_status ''E1'' 5 ''T1'', unit_status ''E1'' 6 ''T2'', unit_status ''E1'' 8 ''T3''] =
     \<lparr> enRoute = ''T1'', onScene = ''T2'', atPatient = ''T2'', cleared = ''T3'',
       backInService = ''T3'' \<rparr>"
    by (simp add: times_defs unit_status_def)
  have row: "final_logCallData_times empty_call
      [unit_status ''E1'' 5 ''T1'', unit_status ''E1'' 6 ''T2'', unit_status ''E1'' 8 ''T3''] =
     \<lparr> enRoute = ''T1'', onScene = ''T2'', atPatient = ''T2'', cleared = ''T3'',
       backInService = [] \<rparr>"
    by (simp add: times_defs unit_status_def empty_call_def)
  have single: "unit_and_times empty_call
      (empty_extra\<lparr> Dispatches := Some [unit_dispatch ''E1''],
         Activity := Some [unit_status ''E1'' 5 ''T1'', unit_status ''E1'' 6 ''T2'',
                           unit_status ''E1'' 8 ''T3''] \<rparr>) =
     \<lparr> unitName = ''E1'', unitLocation = [], unitEnRouteTime = ''T1'',
       unitArrivedOnSceneTime = ''T2'', unitAtPatientTime = [], unitClearedTime = [],
       unitBackInServiceTime = [] \<rparr>"
    by (simp add: unit_defs unit_status_def unit_dispatch_def empty_dispatch_def empty_call_def
        empty_extra_def)
  show ?thesis
    using xml row single by (intro conjI)
qed

section \<open>Activity entries that are not of a unit\<close>

text \<open>
  C9 (fails on the code). In the batch script the entries of a person supply all five
  times, in the XML and in the sheet derivation, although they give no unit to the
  roster; the single-unit generator takes nothing from them.
\<close>

theorem personnel_entry_supplies_times:
  "final_generateXML_times empty_call
      [user_status ''J Smith'' 5 ''P1'', user_status ''J Smith'' 6 ''P2'',
       user_status ''J Smith'' 3 ''P3'', user_status ''J Smith'' 8 ''P4''] =
     \<lparr> enRoute = ''P1'', onScene = ''P2'', atPatient = ''P3'', cleared = ''P4'',
       backInService = ''P4'' \<rparr> \<and>
   final_logCallData_times empty_call
      [user_status ''J Smith'' 5 ''P1'', user_status ''J Smith'' 6 ''P2'',
       user_status ''J Smith'' 3 ''P3'', user_status ''J Smith'' 8 ''P4''] =
     \<lparr> enRoute = ''P1'', onScene = ''P2'', atPatient = ''P3'', cleared = ''P4'',
       backInService = [] \<rparr> \<and>
   activityUnits
      [user_status ''J Smith'' 5 ''P1'', user_status ''J Smith'' 6 ''P2'',
       user_status ''J Smith'' 3 ''P3'', user_status ''J Smith'' 8 ''P4''] = [] \<and>
   unit_and_times empty_call
      (empty_extra\<lparr> Activity := Some
         [user_status ''J Smith'' 5 ''P1'', user_status ''J Smith'' 6 ''P2'',
          user_status ''J Smith'' 3 ''P3'', user_status ''J Smith'' 8 ''P4''] \<rparr>) =
     initial_unit_state"
proof -
  let ?act = "[user_status ''J Smith'' 5 ''P1'', user_status ''J Smith'' 6 ''P2'',
       user_status ''J Smith'' 3 ''P3'', user_status ''J Smith'' 8 ''P4'']"
  have xml: "final_generateXML_times empty_call ?act =
     \<lparr> enRoute = ''P1'', onScene = ''P2'', atPatient = ''P3'', cleared = ''P4'',
       backInService = ''P4'' \<rparr>"
    by (simp add: times_defs user_status_def)
  have row: "final_logCallData_times empty_call ?act =
     \<lparr> enRoute = ''P1'', onScene = ''P2'', atPatient = ''P3'', cleared = ''P4'',
       backInService = [] \<rparr>"
    by (simp add: times_defs user_status_def)
  have roster: "activityUnits ?act = []"
    by (simp add: activityUnits_def user_status_def)
  have single: "unit_and_times empty_call (empty_extra\<lparr> Activity := Some ?act \<rparr>) = initial_unit_state"
    by (simp add: unit_defs user_status_def empty_call_def empty_extra_def)
  show ?thesis
    using xml row roster single by (intro conjI)
qed

section \<open>Text in the template\<close>

text \<open>
  C6 (fails on the code). The template of the XML generator writes the text of a field as
  it is: an ampersand and a less-than sign of the input stand unescaped in the document.
\<close>

theorem template_text_unescaped:
  "generateXML_lines eng (empty_call\<lparr>Name := Some ''A<B'', Nature := Some ''Smoke & fire''\<rparr>) empty_extra ! 9 =
     ''  <CadDispatchText>Smoke & fire</CadDispatchText>'' \<and>
   generateXML_lines eng (empty_call\<lparr>Name := Some ''A<B'', Nature := Some ''Smoke & fire''\<rparr>) empty_extra ! 13 =
     ''  <CallNature>A<B</CallNature>''"
  by (simp add: generateXML_lines_def Let_def empty_call_def or_lit_def element_def split: prod.splits)

section \<open>The fingerprint cache after a failed delivery\<close>

lemma withRetry_timeout:
  "withRetry (\<lambda>k. Inl ''connect ETIMEDOUT'' :: string + bool) sftp_retry_options =
     (Inl (Some (TypeError ''logger.warn is not a function'')), [Attempt])"
  using withRetry_first_failure
    [of "\<lambda>k. Inl ''connect ETIMEDOUT'' :: string + bool" "''connect ETIMEDOUT''" sftp_retry_options]
    retryable_timeout
  by (simp add: sftp_retry_options_def)

lemma cache_after_upload:
  "fst (snd (uploadFileToSFTP cache (Inr h) transfer l r)) = cache(cacheKey l r \<mapsto> h)"
  by (simp add: uploadFileToSFTP_def hasFileChanged_def Let_def split: prod.splits)

text \<open>
  C8 (fails on the code). After a delivery that fails, the cache holds the new hash under
  the key, where it held nothing before; the next delivery of the same content is skipped
  as unchanged, though nothing was transferred. The cache holds the new hash after the
  call whatever the transfer does.
\<close>

theorem cache_updated_before_transfer:
  "fst (uploadFileToSFTP Map.empty (Inr ''9f2c'') (\<lambda>k. Inl ''connect ETIMEDOUT'')
          ''incident_198513.xml'' ''/incoming/incident_198513.xml'') =
     Inl (Some (TypeError ''logger.warn is not a function'')) \<and>
   fst (snd (uploadFileToSFTP Map.empty (Inr ''9f2c'') (\<lambda>k. Inl ''connect ETIMEDOUT'')
          ''incident_198513.xml'' ''/incoming/incident_198513.xml''))
      (cacheKey ''incident_198513.xml'' ''/incoming/incident_198513.xml'') = Some ''9f2c'' \<and>
   fst (uploadFileToSFTP
          (fst (snd (uploadFileToSFTP Map.empty (Inr ''9f2c'') (\<lambda>k. Inl ''connect ETIMEDOUT'')
             ''incident_198513.xml'' ''/incoming/incident_198513.xml'')))
          (Inr ''9f2c'') (\<lambda>k. Inr True)
          ''incident_198513.xml'' ''/incoming/incident_198513.xml'') = Inr False \<and>
   (\<forall>transfer.
      fst (snd (uploadFileToSFTP Map.empty (Inr ''9f2c'') transfer
             ''incident_198513.xml'' ''/incoming/incident_198513.xml''))
        (cacheKey ''incident_198513.xml'' ''/incoming/incident_198513.xml'') = Some ''9f2c'' \<and>
      fst (uploadFileToSFTP
             (fst (snd (uploadFileToSFTP Map.empty (Inr ''9f2c'') transfer
                ''incident_198513.xml'' ''/incoming/incident_198513.xml'')))
             (Inr ''9f2c'') (\<lambda>k. Inr True)
             ''incident_198513.xml'' ''/incoming/incident_198513.xml'') = Inr False)"
proof -
  let ?l = "''incident_198513.xml''" and ?r = "''/incoming/incident_198513.xml''"
  have first: "uploadFileToSFTP Map.empty (Inr ''9f2c'') (\<lambda>k. Inl ''connect ETIMEDOUT'') ?l ?r =
      (Inl (Some (TypeError ''logger.warn is not a function'')), [cacheKey ?l ?r \<mapsto> ''9f2c''],
       [Attempt])"
    by (simp add: uploadFileToSFTP_def hasFileChanged_def truthy_def Let_def withRetry_timeout)
  have second: "uploadFileToSFTP [cacheKey ?l ?r \<mapsto> ''9f2c''] (Inr ''9f2c'') (\<lambda>k. Inr True) ?l ?r =
      (Inr False, [cacheKey ?l ?r \<mapsto> ''9f2c''], [])"
    by (simp add: uploadFileToSFTP_def hasFileChanged_def truthy_def Let_def)
  have any: "fst (snd (uploadFileToSFTP Map.empty (Inr ''9f2c'') transfer ?l ?r)) =
      [cacheKey ?l ?r \<mapsto> ''9f2c'']" for transfer
    by (rule cache_after_upload)
  show ?thesis
    unfolding first any by (simp add: second)
qed

end
